theory Spec2Isabelle
  imports Complex_Main "HOL-Library.Word"
begin

section \<open>machineInfo.go: a shallow embedding\<close>

text \<open>
  The program queries the operating system (hostname, \<open>sysinfo(2)\<close>, the CPU table, the
  network interfaces) and prints what it gets on standard output. The embedding keeps
  the source's function names. What lies outside the repository is an explicit
  environment: the replies of the four queries, the two platform constants of package
  \<open>runtime\<close>, and the renderings that package \<open>fmt\<close> gives to library values.
\<close>

subsection \<open>Machine integers and float64\<close>

type_synonym int64 = "64 word"
type_synonym uint64 = "64 word"
type_synonym uint16 = "16 word"
type_synonym int32 = "32 word"

text \<open>
  A \<open>float64\<close> is modelled by the rational number it denotes. The program only ever
  holds non-negative finite values (conversions of unsigned integers and their
  quotients by a positive constant), and on those an IEEE 754 operation is the exact
  operation followed by rounding to the nearest value with a 53-bit significand, ties
  to even; the exponent of the last place never goes below \<open>-1074\<close> (subnormals).
\<close>

type_synonym float64 = rat

fun bitlen :: "nat \<Rightarrow> nat" where
  "bitlen n = (if n = 0 then 0 else Suc (bitlen (n div 2)))"

declare bitlen.simps [simp del]

definition pow2 :: "int \<Rightarrow> rat" where
  "pow2 e = (if 0 \<le> e then 2 ^ nat e else 1 / 2 ^ nat (- e))"

definition round_half_even :: "rat \<Rightarrow> int" where
  "round_half_even x =
     (let f = \<lfloor>x\<rfloor>; d = x - of_int f
      in if d < 1 / 2 then f else if 1 / 2 < d then f + 1
         else if even f then f else f + 1)"

text \<open>
  The floor of the binary logarithm of \<open>x > 0\<close>, and the exponent of the unit in the last
  place of the float64 nearest to \<open>x\<close>.
\<close>

definition flog2 :: "rat \<Rightarrow> int" where
  "flog2 x =
     (let (p, q) = quotient_of x;
          k = int (bitlen (nat p)) - int (bitlen (nat q))
      in if pow2 k \<le> x then k else k - 1)"

definition f64_exponent :: "rat \<Rightarrow> int" where
  "f64_exponent x = max (flog2 x - 52) (- 1074)"

definition f64_round :: "rat \<Rightarrow> float64" where
  "f64_round x = (let e = f64_exponent x in of_int (round_half_even (x / pow2 e)) * pow2 e)"

text \<open>The conversion \<open>float64(u)\<close> of a \<open>uint64\<close>, and float64 division.\<close>

definition float64_of_uint64 :: "uint64 \<Rightarrow> float64" where
  "float64_of_uint64 u = f64_round (of_nat (unat u))"

definition f64_div :: "float64 \<Rightarrow> float64 \<Rightarrow> float64" where
  "f64_div a b = f64_round (a / b)"

subsection \<open>Constants and types of the source\<close>

definition SYSINFO_LOADS_SCALE :: nat where
  "SYSINFO_LOADS_SCALE = push_bit 16 1"

definition SYSINFO_MEM_UNIT :: nat where
  "SYSINFO_MEM_UNIT = 1024 * 1024"

text \<open>A Go array of length three (\<open>[3]T\<close>); the source only indexes it with constants.\<close>

datatype 'a array3 = Array3 'a 'a 'a

fun index3 :: "'a array3 \<Rightarrow> nat \<Rightarrow> 'a" where
  "index3 (Array3 a b c) i = (if i = 0 then a else if i = 1 then b else c)"

fun update3 :: "'a array3 \<Rightarrow> nat \<Rightarrow> 'a \<Rightarrow> 'a array3" where
  "update3 (Array3 a b c) i v =
     (if i = 0 then Array3 v b c else if i = 1 then Array3 a v c else Array3 a b v)"

text \<open>
  \<open>syscall.Sysinfo_t\<close> as package \<open>syscall\<close> declares it on 64-bit Linux, the only
  targets where the assignments of \<open>GetSysInfo\<close> type-check (\<open>UpTime\<close> is an \<open>int64\<close>,
  the memory fields are \<open>uint64\<close>, and Go converts nothing implicitly). The padding
  fields and \<open>Unit\<close> are never read.
\<close>

record Sysinfo_t =
  Uptime :: int64
  Loads :: "uint64 array3"
  Totalram :: uint64
  Freeram :: uint64
  Sharedram :: uint64
  Bufferram :: uint64
  Totalswap :: uint64
  Freeswap :: uint64
  Procs :: uint16
  Totalhigh :: uint64
  Freehigh :: uint64
  Unit :: "32 word"

record sys_t =
  UpTime :: int64
  Loads :: "float64 array3"
  TotalRam :: uint64
  FreeRam :: uint64
  SharedRam :: uint64
  BufferRam :: uint64
  TotalSwap :: uint64
  FreeSwap :: uint64
  Procs :: uint16
  TotalHigh :: uint64
  FreeHigh :: uint64

text \<open>The zero value \<open>sys_t{}\<close>.\<close>

definition sys_t_zero :: sys_t where
  "sys_t_zero = \<lparr>UpTime = 0, Loads = Array3 0 0 0, TotalRam = 0, FreeRam = 0, SharedRam = 0,
     BufferRam = 0, TotalSwap = 0, FreeSwap = 0, Procs = 0, TotalHigh = 0, FreeHigh = 0\<rparr>"

text \<open>\<open>cpu.InfoStat\<close> of gopsutil and \<open>net.Interface\<close>, as their packages declare them.\<close>

record InfoStat =
  CPU :: int32
  VendorID :: string
  Family :: string
  Model :: string
  Stepping :: int32
  PhysicalID :: string
  CoreID :: string
  Cores :: int32
  ModelName :: string
  Mhz :: float64
  CacheSize :: int32
  Flags :: "string list"
  Microcode :: string

record Interface =
  Index :: int64
  MTU :: int64
  Name :: string
  HardwareAddr :: "8 word list"
  Flags :: uint64

subsection \<open>The process: standard output, queries, panics\<close>

type_synonym go_error = string

datatype panic_value =
  Error go_error
  | IndexOutOfRange nat nat
  | SliceBoundsOutOfRange nat nat

datatype flag_failure =
  BadFlagSyntax string
  | FlagNotDefined string
  | HelpRequested
  | InvalidBoolean string string

datatype abort = Panic panic_value | FlagExit flag_failure

text \<open>
  The state of a run: what has been written to standard output, and how many queries
  the process has put to the operating system so far. The environment answers a query
  by its number, so a second call of the same query may get another answer.
\<close>

record world =
  stdout :: string
  queries :: nat

record env =
  os_Hostname :: "nat \<Rightarrow> go_error + string"
  syscall_Sysinfo :: "nat \<Rightarrow> go_error + Sysinfo_t"
  cpu_Info :: "nat \<Rightarrow> go_error + InfoStat list"
  net_Interfaces :: "nat \<Rightarrow> go_error + Interface list"
  runtime_GOOS :: string
  runtime_GOARCH :: string
  fmt_2_2f :: "float64 \<Rightarrow> string"
  fmt_g :: "float64 \<Rightarrow> string"
  fmt_v_Interface :: "Interface \<Rightarrow> string"

type_synonym 'a io = "world \<Rightarrow> (abort + 'a) \<times> world"

definition return_io :: "'a \<Rightarrow> 'a io" where
  "return_io x w = (Inr x, w)"

definition panic :: "panic_value \<Rightarrow> 'a io" where
  "panic v w = (Inl (Panic v), w)"

definition bind_io :: "'a io \<Rightarrow> ('a \<Rightarrow> 'b io) \<Rightarrow> 'b io" where
  "bind_io m f w = (case m w of (Inl a, w') \<Rightarrow> (Inl a, w') | (Inr x, w') \<Rightarrow> f x w')"

definition then_io :: "unit io \<Rightarrow> 'b io \<Rightarrow> 'b io" where
  "then_io m n = bind_io m (\<lambda>_. n)"

definition when_io :: "bool \<Rightarrow> unit io \<Rightarrow> unit io" where
  "when_io b m = (if b then m else return_io ())"

text \<open>One query put to the operating system; an error reply is a panic.\<close>

definition query :: "(nat \<Rightarrow> go_error + 'a) \<Rightarrow> 'a io" where
  "query q w =
     (case q (queries w) of
        Inl err \<Rightarrow> (Inl (Panic (Error err)), w\<lparr>queries := Suc (queries w)\<rparr>)
      | Inr x \<Rightarrow> (Inr x, w\<lparr>queries := Suc (queries w)\<rparr>))"

subsection \<open>Formatting\<close>

definition TAB :: string where
  "TAB = [CHR 0x09]"

definition NL :: string where
  "NL = [CHR 0x0A]"

function digits :: "nat \<Rightarrow> string" where
  "digits n = (if n < 10 then [''0123456789'' ! n] else digits (n div 10) @ [''0123456789'' ! (n mod 10)])"
  by pat_completeness auto
termination
  by (relation "measure (\<lambda>n. n)") auto

declare digits.simps [simp del]

text \<open>The verb \<open>%d\<close> on an integer, and \<open>%v\<close> on a slice of strings.\<close>

definition fmt_d :: "int \<Rightarrow> string" where
  "fmt_d i = (if i < 0 then CHR ''-'' # digits (nat (- i)) else digits (nat i))"

fun join_sp :: "string list \<Rightarrow> string" where
  "join_sp [] = []"
| "join_sp [s] = s"
| "join_sp (s # ss) = s @ '' '' @ join_sp ss"

definition fmt_v_strings :: "string list \<Rightarrow> string" where
  "fmt_v_strings ss = ''['' @ join_sp ss @ '']''"

definition Printf :: "string \<Rightarrow> unit io" where
  "Printf s w = (Inr (), w\<lparr>stdout := stdout w @ s\<rparr>)"

text \<open>Consecutive \<open>fmt.Printf\<close> statements, one per formatted string.\<close>

fun Printfs :: "string list \<Rightarrow> unit io" where
  "Printfs [] = return_io ()"
| "Printfs (s # ss) = then_io (Printf s) (Printfs ss)"

subsection \<open>The query functions\<close>

definition GetHostName :: "env \<Rightarrow> string io" where
  "GetHostName env = bind_io (query (os_Hostname env)) (\<lambda>hostN. return_io hostN)"

definition GetOSName :: "env \<Rightarrow> string \<times> string" where
  "GetOSName env = (runtime_GOOS env, runtime_GOARCH env)"

text \<open>The assignments of \<open>GetSysInfo\<close> after the query, from the zero value on.\<close>

definition GetSysInfo_assign :: "Sysinfo_t \<Rightarrow> sys_t" where
  "GetSysInfo_assign sys_ref =
     (let sys_obj = sys_t_zero;
          sys_obj = sys_obj\<lparr>UpTime := Uptime sys_ref\<rparr>;
          sys_obj = sys_obj\<lparr>Loads := update3 (Loads sys_obj) 0
            (f64_div (float64_of_uint64 (index3 (Sysinfo_t.Loads sys_ref) 0)) (of_nat SYSINFO_LOADS_SCALE))\<rparr>;
          sys_obj = sys_obj\<lparr>Loads := update3 (Loads sys_obj) 1
            (f64_div (float64_of_uint64 (index3 (Sysinfo_t.Loads sys_ref) 1)) (of_nat SYSINFO_LOADS_SCALE))\<rparr>;
          sys_obj = sys_obj\<lparr>Loads := update3 (Loads sys_obj) 2
            (f64_div (float64_of_uint64 (index3 (Sysinfo_t.Loads sys_ref) 2)) (of_nat SYSINFO_LOADS_SCALE))\<rparr>;
          sys_obj = sys_obj\<lparr>TotalRam := Totalram sys_ref div of_nat SYSINFO_MEM_UNIT\<rparr>;
          sys_obj = sys_obj\<lparr>FreeRam := Freeram sys_ref div of_nat SYSINFO_MEM_UNIT\<rparr>;
          sys_obj = sys_obj\<lparr>SharedRam := Sharedram sys_ref div of_nat SYSINFO_MEM_UNIT\<rparr>;
          sys_obj = sys_obj\<lparr>BufferRam := Bufferram sys_ref div of_nat SYSINFO_MEM_UNIT\<rparr>;
          sys_obj = sys_obj\<lparr>TotalSwap := Totalswap sys_ref div of_nat SYSINFO_MEM_UNIT\<rparr>;
          sys_obj = sys_obj\<lparr>FreeSwap := Freeswap sys_ref div of_nat SYSINFO_MEM_UNIT\<rparr>;
          sys_obj = sys_obj\<lparr>Procs := Sysinfo_t.Procs sys_ref\<rparr>;
          sys_obj = sys_obj\<lparr>TotalHigh := Totalhigh sys_ref div of_nat SYSINFO_MEM_UNIT\<rparr>;
          sys_obj = sys_obj\<lparr>FreeHigh := Freehigh sys_ref div of_nat SYSINFO_MEM_UNIT\<rparr>
      in sys_obj)"

definition GetSysInfo :: "env \<Rightarrow> sys_t io" where
  "GetSysInfo env =
     bind_io (query (syscall_Sysinfo env)) (\<lambda>sys_ref. return_io (GetSysInfo_assign sys_ref))"

definition GetCPUInfo :: "env \<Rightarrow> InfoStat list io" where
  "GetCPUInfo env = bind_io (query (cpu_Info env)) (\<lambda>cpu_info. return_io cpu_info)"

definition GetNetworkInterface :: "env \<Rightarrow> Interface list io" where
  "GetNetworkInterface env = bind_io (query (net_Interfaces env)) (\<lambda>ifaces. return_io ifaces)"

subsection \<open>The printing functions\<close>

definition PrintHostName :: "env \<Rightarrow> unit io" where
  "PrintHostName env =
     bind_io (GetHostName env) (\<lambda>h. Printf (''hostname:'' @ TAB @ h @ NL))"

definition PrintOSName :: "env \<Rightarrow> unit io" where
  "PrintOSName env =
     then_io (Printf (''OS name:'' @ TAB @ runtime_GOOS env @ NL))
             (Printf (''OS arch:'' @ TAB @ runtime_GOARCH env @ NL))"

text \<open>The eleven formatted lines of \<open>PrintSysInfo\<close>, in the order of its statements.\<close>

definition SysInfo_lines :: "env \<Rightarrow> sys_t \<Rightarrow> string list" where
  "SysInfo_lines env sys_obj =
     [''sys uptime:'' @ TAB @ fmt_d (sint (UpTime sys_obj)) @ NL,
      ''sys load avg:'' @ TAB @ fmt_2_2f env (index3 (Loads sys_obj) 0) @ '', ''
         @ fmt_2_2f env (index3 (Loads sys_obj) 1) @ '', ''
         @ fmt_2_2f env (index3 (Loads sys_obj) 2) @ NL,
      ''sys totalRam:'' @ TAB @ fmt_d (uint (TotalRam sys_obj)) @ '' MB'' @ NL,
      ''sys freeRam:'' @ TAB @ fmt_d (uint (TotalRam sys_obj)) @ '' MB'' @ NL,
      ''sys sharedRam:'' @ TAB @ fmt_d (uint (SharedRam sys_obj)) @ '' MB'' @ NL,
      ''sys bufferRam:'' @ TAB @ fmt_d (uint (BufferRam sys_obj)) @ '' MB'' @ NL,
      ''sys totalSwap:'' @ TAB @ fmt_d (uint (TotalSwap sys_obj)) @ '' MB'' @ NL,
      ''sys freeSwap:'' @ TAB @ fmt_d (uint (FreeSwap sys_obj)) @ '' MB'' @ NL,
      ''sys totalHigh:'' @ TAB @ fmt_d (uint (TotalHigh sys_obj)) @ '' MB'' @ NL,
      ''sys freeHigh:'' @ TAB @ fmt_d (uint (FreeHigh sys_obj)) @ '' MB'' @ NL,
      ''sys procs:'' @ TAB @ fmt_d (uint (Procs sys_obj)) @ NL]"

definition PrintSysInfo :: "env \<Rightarrow> unit io" where
  "PrintSysInfo env = bind_io (GetSysInfo env) (\<lambda>sys_obj. Printfs (SysInfo_lines env sys_obj))"

text \<open>The thirteen formatted lines of one iteration of the loop of \<open>PrintCPUInfo\<close>.\<close>

definition CPUInfo_lines :: "env \<Rightarrow> InfoStat \<Rightarrow> string list" where
  "CPUInfo_lines env c =
     [''cpuID:'' @ TAB @ fmt_d (sint (CPU c)) @ NL,
      ''--vendorID:'' @ TAB @ VendorID c @ NL,
      ''--family:'' @ TAB @ Family c @ NL,
      ''--model:'' @ TAB @ Model c @ NL,
      ''--stepping:'' @ TAB @ fmt_d (sint (Stepping c)) @ NL,
      ''--physicalID:'' @ TAB @ PhysicalID c @ NL,
      ''--coreID:'' @ TAB @ CoreID c @ NL,
      ''--cores:'' @ TAB @ fmt_d (sint (Cores c)) @ NL,
      ''--modelName:'' @ TAB @ ModelName c @ NL,
      ''--MHz:'' @ TAB @ TAB @ fmt_g env (Mhz c) @ NL,
      ''--facheSize:'' @ TAB @ fmt_d (sint (CacheSize c)) @ NL,
      ''--flags:'' @ TAB @ fmt_v_strings (InfoStat.Flags c) @ NL,
      ''--Microcode:'' @ TAB @ Microcode c @ NL]"

function PrintCPUInfo_loop :: "env \<Rightarrow> InfoStat list \<Rightarrow> nat \<Rightarrow> unit io" where
  "PrintCPUInfo_loop env cpu_info i w =
     (if i < length cpu_info then
        (case Printfs (CPUInfo_lines env (cpu_info ! i)) w of
           (Inl a, w') \<Rightarrow> (Inl a, w')
         | (Inr u, w') \<Rightarrow> PrintCPUInfo_loop env cpu_info (Suc i) w')
      else (Inr (), w))"
  by pat_completeness auto
termination
  by (relation "measure (\<lambda>(env, cpu_info, i, w). length cpu_info - i)") auto

declare PrintCPUInfo_loop.simps [simp del]

definition PrintCPUInfo :: "env \<Rightarrow> unit io" where
  "PrintCPUInfo env = bind_io (GetCPUInfo env) (\<lambda>cpu_info. PrintCPUInfo_loop env cpu_info 0)"

text \<open>Indexing a slice panics out of range, as the Go runtime does.\<close>

definition index_io :: "'a list \<Rightarrow> nat \<Rightarrow> 'a io" where
  "index_io xs i = (if i < length xs then return_io (xs ! i) else panic (IndexOutOfRange i (length xs)))"

function PrintNetworkInterface_loop :: "env \<Rightarrow> Interface list \<Rightarrow> nat \<Rightarrow> unit io" where
  "PrintNetworkInterface_loop env ifaces i w =
     (if i < length ifaces then
        (case Printf (TAB @ TAB @ fmt_v_Interface env (ifaces ! i) @ NL) w of
           (Inl a, w') \<Rightarrow> (Inl a, w')
         | (Inr u, w') \<Rightarrow> PrintNetworkInterface_loop env ifaces (Suc i) w')
      else (Inr (), w))"
  by pat_completeness auto
termination
  by (relation "measure (\<lambda>(env, ifaces, i, w). length ifaces - i)") auto

declare PrintNetworkInterface_loop.simps [simp del]

definition PrintNetworkInterface :: "env \<Rightarrow> unit io" where
  "PrintNetworkInterface env =
     bind_io (GetNetworkInterface env) (\<lambda>ifaces.
       bind_io (index_io ifaces 0) (\<lambda>first.
         then_io (Printf (''interfaces:'' @ TAB @ fmt_v_Interface env first @ NL))
                 (PrintNetworkInterface_loop env ifaces 1)))"

subsection \<open>The command line\<close>

text \<open>
  The four boolean flags that \<open>main\<close> registers, under the names of its variables, and
  package \<open>flag\<close>'s parsing of the arguments after the program name: \<open>-name\<close>,
  \<open>--name\<close>, \<open>-name=value\<close>; parsing stops at the first argument that is not a flag
  or after \<open>--\<close>; with \<open>ExitOnError\<close> a failure ends the process.
\<close>

record flags =
  hn :: bool
  OS :: bool
  cpu :: bool
  netw :: bool

definition flags_default :: flags where
  "flags_default = \<lparr>hn = False, OS = False, cpu = False, netw = False\<rparr>"

text \<open>
  \<open>strconv.ParseBool\<close>, the names registered by the four \<open>flag.Bool\<close> calls, and
  setting one of them.
\<close>

definition ParseBool :: "string \<Rightarrow> bool option" where
  "ParseBool str =
     (if str \<in> set [''1'', ''t'', ''T'', ''TRUE'', ''true'', ''True''] then Some True
      else if str \<in> set [''0'', ''f'', ''F'', ''FALSE'', ''false'', ''False''] then Some False
      else None)"

definition flag_formal :: "string list" where
  "flag_formal = [''hostname'', ''os'', ''cpu'', ''network'']"

definition flag_Set :: "string \<Rightarrow> bool \<Rightarrow> flags \<Rightarrow> flags" where
  "flag_Set name v fl =
     (if name = ''hostname'' then fl\<lparr>hn := v\<rparr>
      else if name = ''os'' then fl\<lparr>OS := v\<rparr>
      else if name = ''cpu'' then fl\<lparr>cpu := v\<rparr>
      else if name = ''network'' then fl\<lparr>netw := v\<rparr>
      else fl)"

fun flag_Parse :: "flags \<Rightarrow> string list \<Rightarrow> flag_failure + flags" where
  "flag_Parse fl [] = Inr fl"
| "flag_Parse fl (s # args) =
     (if length s < 2 \<or> s ! 0 \<noteq> CHR ''-'' then Inr fl
      else if s = ''--'' then Inr fl
      else
        let numMinuses = (if s ! 1 = CHR ''-'' then 2 else 1 :: nat);
            name = drop numMinuses s
        in if length name = 0 \<or> name ! 0 = CHR ''-'' \<or> name ! 0 = CHR ''='' then Inl (BadFlagSyntax s)
           else
             let hasValue = (CHR ''='' \<in> set (tl name));
                 val = tl (dropWhile (\<lambda>c. c \<noteq> CHR ''='') (tl name));
                 name = hd name # takeWhile (\<lambda>c. c \<noteq> CHR ''='') (tl name)
             in if name \<notin> set flag_formal then
                  (if name = ''help'' \<or> name = ''h'' then Inl HelpRequested
                   else Inl (FlagNotDefined name))
                else if hasValue then
                  (case ParseBool val of
                     None \<Rightarrow> Inl (InvalidBoolean val name)
                   | Some b \<Rightarrow> flag_Parse (flag_Set name b fl) args)
                else flag_Parse (flag_Set name True fl) args)"

declare flag_Parse.simps (2) [simp del]

subsection \<open>main\<close>

text \<open>\<open>os.Args\<close> holds the program name and then the arguments.\<close>

definition main :: "env \<Rightarrow> string list \<Rightarrow> unit io" where
  "main env os_Args =
     (if length os_Args < 1 then panic (SliceBoundsOutOfRange 1 (length os_Args))
      else
        (case flag_Parse flags_default (drop 1 os_Args) of
           Inl f \<Rightarrow> (\<lambda>w. (Inl (FlagExit f), w))
         | Inr fl \<Rightarrow>
             then_io (Printf (fmt_d (int (length os_Args)) @ NL))
               (if length os_Args = 1 then
                  then_io (PrintHostName env)
                 (then_io (PrintNetworkInterface env)
                 (then_io (PrintOSName env)
                 (then_io (PrintSysInfo env)
                          (PrintCPUInfo env))))
                else
                  then_io (when_io (hn fl) (PrintHostName env))
                 (then_io (when_io (OS fl) (then_io (PrintSysInfo env) (PrintCPUInfo env)))
                 (then_io (when_io (cpu fl) (PrintCPUInfo env))
                          (when_io (netw fl) (PrintNetworkInterface env)))))))"

subsection \<open>The text of each report section\<close>

text \<open>
  What a successful reporter appends to standard output, written out from the format
  strings of the source as a function of the reply: the characters a reader of the
  terminal sees, whatever way the printing functions produce them.
\<close>

definition HostName_text :: "string \<Rightarrow> string" where
  "HostName_text h = ''hostname:'' @ TAB @ h @ NL"

definition OSName_text :: "env \<Rightarrow> string" where
  "OSName_text env =
     ''OS name:'' @ TAB @ runtime_GOOS env @ NL @ ''OS arch:'' @ TAB @ runtime_GOARCH env @ NL"

definition SysInfo_text :: "env \<Rightarrow> Sysinfo_t \<Rightarrow> string" where
  "SysInfo_text env sys_ref =
     ''sys uptime:'' @ TAB @ fmt_d (sint (Uptime sys_ref)) @ NL
     @ ''sys load avg:'' @ TAB
       @ fmt_2_2f env (float64_of_uint64 (index3 (Sysinfo_t.Loads sys_ref) 0) / 65536) @ '', ''
       @ fmt_2_2f env (float64_of_uint64 (index3 (Sysinfo_t.Loads sys_ref) 1) / 65536) @ '', ''
       @ fmt_2_2f env (float64_of_uint64 (index3 (Sysinfo_t.Loads sys_ref) 2) / 65536) @ NL
     @ ''sys totalRam:'' @ TAB @ fmt_d (uint (Totalram sys_ref) div 1048576) @ '' MB'' @ NL
     @ ''sys freeRam:'' @ TAB @ fmt_d (uint (Totalram sys_ref) div 1048576) @ '' MB'' @ NL
     @ ''sys sharedRam:'' @ TAB @ fmt_d (uint (Sharedram sys_ref) div 1048576) @ '' MB'' @ NL
     @ ''sys bufferRam:'' @ TAB @ fmt_d (uint (Bufferram sys_ref) div 1048576) @ '' MB'' @ NL
     @ ''sys totalSwap:'' @ TAB @ fmt_d (uint (Totalswap sys_ref) div 1048576) @ '' MB'' @ NL
     @ ''sys freeSwap:'' @ TAB @ fmt_d (uint (Freeswap sys_ref) div 1048576) @ '' MB'' @ NL
     @ ''sys totalHigh:'' @ TAB @ fmt_d (uint (Totalhigh sys_ref) div 1048576) @ '' MB'' @ NL
     @ ''sys freeHigh:'' @ TAB @ fmt_d (uint (Freehigh sys_ref) div 1048576) @ '' MB'' @ NL
     @ ''sys procs:'' @ TAB @ fmt_d (uint (Sysinfo_t.Procs sys_ref)) @ NL"

definition CPU_record_text :: "env \<Rightarrow> InfoStat \<Rightarrow> string" where
  "CPU_record_text env c =
     ''cpuID:'' @ TAB @ fmt_d (sint (CPU c)) @ NL
     @ ''--vendorID:'' @ TAB @ VendorID c @ NL
     @ ''--family:'' @ TAB @ Family c @ NL
     @ ''--model:'' @ TAB @ Model c @ NL
     @ ''--stepping:'' @ TAB @ fmt_d (sint (Stepping c)) @ NL
     @ ''--physicalID:'' @ TAB @ PhysicalID c @ NL
     @ ''--coreID:'' @ TAB @ CoreID c @ NL
     @ ''--cores:'' @ TAB @ fmt_d (sint (Cores c)) @ NL
     @ ''--modelName:'' @ TAB @ ModelName c @ NL
     @ ''--MHz:'' @ TAB @ TAB @ fmt_g env (Mhz c) @ NL
     @ ''--facheSize:'' @ TAB @ fmt_d (sint (CacheSize c)) @ NL
     @ ''--flags:'' @ TAB @ fmt_v_strings (InfoStat.Flags c) @ NL
     @ ''--Microcode:'' @ TAB @ Microcode c @ NL"

definition CPUInfo_text :: "env \<Rightarrow> InfoStat list \<Rightarrow> string" where
  "CPUInfo_text env cpu_info = concat (map (CPU_record_text env) cpu_info)"

text \<open>
  What \<open>PrintSysInfo\<close> and \<open>PrintCPUInfo\<close> write, as they compute it: the lines they
  format, joined.
\<close>

definition SysInfo_printed :: "env \<Rightarrow> Sysinfo_t \<Rightarrow> string" where
  "SysInfo_printed env sys_ref = concat (SysInfo_lines env (GetSysInfo_assign sys_ref))"

definition CPUInfo_printed :: "env \<Rightarrow> InfoStat list \<Rightarrow> string" where
  "CPUInfo_printed env cpu_info = concat (map (\<lambda>c. concat (CPUInfo_lines env c)) cpu_info)"

definition NetworkInterface_text :: "env \<Rightarrow> Interface list \<Rightarrow> string" where
  "NetworkInterface_text env ifaces =
     ''interfaces:'' @ TAB @ fmt_v_Interface env (hd ifaces) @ NL
       @ concat (map (\<lambda>i. TAB @ TAB @ fmt_v_Interface env i @ NL) (tl ifaces))"

text \<open>The world after one more query.\<close>

definition asked :: "world \<Rightarrow> world" where
  "asked w = w\<lparr>queries := Suc (queries w)\<rparr>"

subsection \<open>A concrete machine\<close>

definition lo :: Interface where
  "lo = \<lparr>Index = 1, MTU = 65536, Name = ''lo'', HardwareAddr = [], Flags = 5\<rparr>"

definition cpu0 :: InfoStat where
  "cpu0 = \<lparr>CPU = 0, VendorID = ''GenuineIntel'', Family = ''6'', Model = ''85'', Stepping = 7,
     PhysicalID = ''0'', CoreID = ''0'', Cores = 1, ModelName = ''Xeon'', Mhz = 2500,
     CacheSize = 36608, Flags = [''fpu'', ''vme''], Microcode = ''0x1''\<rparr>"

definition cpu1 :: InfoStat where
  "cpu1 = cpu0\<lparr>CPU := 1, CoreID := ''1''\<rparr>"

definition si0 :: Sysinfo_t where
  "si0 = \<lparr>Uptime = 100, Loads = Array3 65536 32768 0, Totalram = 8589934592,
     Freeram = 1073741824, Sharedram = 0, Bufferram = 1048575, Totalswap = 0, Freeswap = 0,
     Procs = 200, Totalhigh = 0, Freehigh = 0, Unit = 1\<rparr>"

definition box :: env where
  "box = \<lparr>os_Hostname = (\<lambda>_. Inr ''box''), syscall_Sysinfo = (\<lambda>_. Inr si0),
     cpu_Info = (\<lambda>_. Inr [cpu0]), net_Interfaces = (\<lambda>_. Inr [lo]),
     runtime_GOOS = ''linux'', runtime_GOARCH = ''amd64'',
     fmt_2_2f = (\<lambda>_. ''0.00''), fmt_g = (\<lambda>_. ''2500''), fmt_v_Interface = Name\<rparr>"

text \<open>
  The same machine with no network interface, one whose queries all fail, and one whose
  CPU table has three entries, two of them equal.
\<close>

definition box_no_ifaces :: env where
  "box_no_ifaces = box\<lparr>net_Interfaces := (\<lambda>_. Inr [])\<rparr>"

definition broken :: env where
  "broken = box\<lparr>os_Hostname := (\<lambda>_. Inl ''EFAULT''), syscall_Sysinfo := (\<lambda>_. Inl ''EFAULT''),
     cpu_Info := (\<lambda>_. Inl ''ENOENT''), net_Interfaces := (\<lambda>_. Inl ''EMFILE'')\<rparr>"

definition box3 :: env where
  "box3 = box\<lparr>cpu_Info := (\<lambda>_. Inr [cpu0, cpu1, cpu0])\<rparr>"

definition start :: world where
  "start = \<lparr>stdout = [], queries = 0\<rparr>"

section \<open>Properties\<close>

subsection \<open>Rounding to float64\<close>

lemma bitlen_bounds: "0 < n \<Longrightarrow> 2 ^ (bitlen n - 1) \<le> n \<and> n < 2 ^ bitlen n"
proof (induction n rule: bitlen.induct)
  case (1 n)
  show ?case
  proof (cases "n div 2 = 0")
    case True
    with 1(2) have "n = 1" by (simp add: div_eq_0_iff) 
    then show ?thesis by (simp add: bitlen.simps[of "Suc 0"] bitlen.simps[of 0])
  next
    case False
    then have pos: "0 < n div 2" by simp
    from 1(2) have n0: "n \<noteq> 0" by simp
    from 1(1)[OF n0 pos] have ih: "2 ^ (bitlen (n div 2) - 1) \<le> n div 2" "n div 2 < 2 ^ bitlen (n div 2)" by auto
    have bl: "bitlen n = Suc (bitlen (n div 2))" using n0 by (simp add: bitlen.simps[of n])
    have blpos: "0 < bitlen (n div 2)" using pos by (simp add: bitlen.simps[of "n div 2"])
    then obtain k where k: "bitlen (n div 2) = Suc k" by (cases "bitlen (n div 2)") auto
    from ih k have "2 ^ k \<le> n div 2" "n div 2 < 2 ^ Suc k" by auto
    then have "2 * 2 ^ k \<le> n" "n < 2 * 2 ^ Suc k" by linarith+
    then show ?thesis by (simp add: bl k)
  qed
qed

lemma bitlen_pos: "0 < n \<Longrightarrow> 0 < bitlen n"
  by (simp add: bitlen.simps[of n])

lemma pow2_powi: "pow2 e = 2 powi e"
  by (simp add: pow2_def power_int_def inverse_eq_divide power_one_over)

lemma pow2_pos: "0 < pow2 e"
  by (simp add: pow2_powi)

lemma pow2_add: "pow2 (a + b) = pow2 a * pow2 b"
  by (simp add: pow2_powi power_int_add)

lemma pow2_diff: "pow2 (a - b) = pow2 a / pow2 b"
  by (simp add: pow2_powi power_int_diff)

lemma pow2_nat: "pow2 (int n) = 2 ^ n"
  by (simp add: pow2_def)

lemma pow2_strict_mono: "a < b \<Longrightarrow> pow2 a < pow2 b"
  by (simp add: pow2_powi power_int_strict_increasing)

lemma pow2_less_iff: "pow2 a < pow2 b \<longleftrightarrow> a < b"
proof
  assume "pow2 a < pow2 b"
  show "a < b"
  proof (rule ccontr)
    assume "\<not> a < b"
    then have "b = a \<or> b < a" by auto
    then have "pow2 b \<le> pow2 a" using pow2_strict_mono [of b a] by auto
    with \<open>pow2 a < pow2 b\<close> show False by simp
  qed
qed (rule pow2_strict_mono)

lemma pow2_le_iff: "pow2 a \<le> pow2 b \<longleftrightarrow> a \<le> b"
  unfolding not_less [symmetric] by (simp only: pow2_less_iff)

lemma pow2_numeral: "pow2 (numeral k) = 2 ^ numeral k"
  by (simp add: pow2_def)

lemma pow2_one: "pow2 1 = 2"
  by (simp add: pow2_def)

lemma round_half_even_of_int: "round_half_even (of_int n) = n"
  by (simp add: round_half_even_def)

lemma round_half_even_nonneg: "0 \<le> x \<Longrightarrow> 0 \<le> round_half_even x"
  by (auto simp: round_half_even_def Let_def)

lemma round_half_even_le: "x \<le> of_int n \<Longrightarrow> round_half_even x \<le> n"
proof -
  assume a: "x \<le> of_int n"
  show ?thesis
  proof (cases "x = of_int n")
    case True then show ?thesis by (simp add: round_half_even_of_int)
  next
    case False
    with a have "x < of_int n" by simp
    then have "\<lfloor>x\<rfloor> < n" by (simp add: floor_less_iff)
    then show ?thesis by (auto simp: round_half_even_def Let_def)
  qed
qed

lemma f64_exponent_flog2: "f64_exponent x = max (flog2 x - 52) (- 1074)"
  by (simp add: f64_exponent_def)

lemma bitlen_pow2_bounds:
  assumes "0 < (n::int)"
  shows "pow2 (int (bitlen (nat n)) - 1) \<le> of_int n" and "of_int n < pow2 (int (bitlen (nat n)))"
proof -
  define b where "b = bitlen (nat n)"
  have bpos: "0 < b" using assms by (simp add: b_def bitlen_pos)
  then obtain c where c: "b = Suc c" by (cases b) auto
  from bitlen_bounds [of "nat n"] assms
  have n1: "2 ^ c \<le> nat n" and n2: "nat n < 2 ^ b" by (simp_all add: b_def [symmetric] c)
  have nn: "(of_int n :: rat) = of_nat (nat n)" using assms by simp
  have "(of_nat (2 ^ c) :: rat) \<le> of_nat (nat n)" using n1 by (simp only: of_nat_le_iff)
  then have "(2 ^ c :: rat) \<le> of_int n" by (simp only: nn of_nat_power of_nat_numeral)
  moreover have "int b - 1 = int c" by (simp add: c)
  ultimately show "pow2 (int (bitlen (nat n)) - 1) \<le> of_int n"
    by (simp only: b_def [symmetric] pow2_nat)
  have "(of_nat (nat n) :: rat) < of_nat (2 ^ b)" using n2 by (simp only: of_nat_less_iff)
  then have "(of_int n :: rat) < 2 ^ b" by (simp only: nn of_nat_power of_nat_numeral)
  then show "of_int n < pow2 (int (bitlen (nat n)))"
    by (simp only: b_def [symmetric] pow2_nat)
qed

lemma flog2_bounds:
  assumes "0 < x"
  shows "pow2 (flog2 x) \<le> x \<and> x < pow2 (flog2 x + 1)"
proof -
  obtain p q where pq: "quotient_of x = (p, q)" by force
  have q: "0 < q" using quotient_of_denom_pos [OF pq] .
  have x: "x = of_int p / of_int q" using quotient_of_div [OF pq] .
  have qr: "(0::rat) < of_int q" using q by simp
  have "0 < (of_int p :: rat)" using assms qr unfolding x by (simp add: zero_less_divide_iff)
  then have p: "0 < p" by simp
  define bp where "bp = int (bitlen (nat p))"
  define bq where "bq = int (bitlen (nat q))"
  note P = bitlen_pow2_bounds [OF p, folded bp_def]
  note Q = bitlen_pow2_bounds [OF q, folded bq_def]
  define k where "k = bp - bq"
  have e1: "pow2 (k - 1) * pow2 bq = pow2 (bp - 1)"
    unfolding pow2_add [symmetric] k_def by simp
  have e2: "pow2 (k + 1) * pow2 (bq - 1) = pow2 bp"
    unfolding pow2_add [symmetric] k_def by simp
  have lo: "pow2 (k - 1) \<le> x"
  proof -
    have "pow2 (k - 1) * of_int q \<le> pow2 (k - 1) * pow2 bq"
      using Q(2) pow2_pos [of "k - 1"] by (intro mult_left_mono) simp_all
    also have "\<dots> \<le> of_int p" unfolding e1 by (rule P(1))
    finally show ?thesis unfolding x using qr by (simp only: pos_le_divide_eq)
  qed
  have hi: "x < pow2 (k + 1)"
  proof -
    have "pow2 (k + 1) * pow2 (bq - 1) \<le> pow2 (k + 1) * of_int q"
      using Q(1) pow2_pos [of "k + 1"] by (intro mult_left_mono) simp_all
    with P(2) have "of_int p < pow2 (k + 1) * of_int q" unfolding e2 by simp
    then show ?thesis unfolding x using qr by (simp only: pos_divide_less_eq)
  qed
  have fl: "flog2 x = (if pow2 k \<le> x then k else k - 1)"
    by (simp add: flog2_def pq k_def bp_def bq_def)
  show ?thesis
  proof (cases "pow2 k \<le> x")
    case True
    then show ?thesis using hi by (simp only: fl if_True simp_thms)
  next
    case False
    then show ?thesis using lo by (simp add: fl)
  qed
qed

lemma f64_round_zero: "f64_round 0 = 0"
  by (simp add: f64_round_def round_half_even_def)

lemma f64_round_nonneg: "0 \<le> x \<Longrightarrow> 0 \<le> f64_round x"
  using pow2_pos [of "f64_exponent x"] round_half_even_nonneg [of "x / pow2 (f64_exponent x)"]
  by (simp add: f64_round_def Let_def less_imp_le)

lemma f64_round_exact:
  assumes m: "0 < m" "m < 2 ^ 53" and e: "- 1074 \<le> e"
  shows "f64_round (of_nat m * pow2 e) = of_nat m * pow2 e"
proof -
  define x where "x = (of_nat m :: rat) * pow2 e"
  define fe where "fe = f64_exponent x"
  have xpos: "0 < x" using m pow2_pos [of e] by (simp add: x_def)
  have "(of_nat m :: rat) < of_nat (2 ^ 53)" using m(2) by (simp only: of_nat_less_iff)
  then have "(of_nat m :: rat) < pow2 53" by (simp add: pow2_numeral)
  then have "x < pow2 53 * pow2 e" using pow2_pos [of e] by (simp add: x_def)
  then have "x < pow2 (53 + e)" by (simp add: pow2_add)
  with flog2_bounds [OF xpos] have "pow2 (flog2 x) < pow2 (53 + e)" by simp
  then have "flog2 x < 53 + e" by (simp add: pow2_less_iff)
  then have le: "fe \<le> e" using e by (simp add: fe_def f64_exponent_flog2)
  define d where "d = nat (e - fe)"
  have ed: "e = fe + int d" using le by (simp add: d_def)
  have pe: "pow2 e = pow2 fe * 2 ^ d" by (simp add: ed pow2_add pow2_nat)
  have "x / pow2 fe = of_nat m * 2 ^ d"
    using pow2_pos [of fe] by (simp add: x_def pe)
  also have "\<dots> = of_int (int m * 2 ^ d)" by simp
  finally have "round_half_even (x / pow2 fe) = int m * 2 ^ d"
    by (simp only: round_half_even_of_int)
  then have "f64_round x = of_int (int m * 2 ^ d) * pow2 fe"
    by (simp add: f64_round_def Let_def fe_def)
  also have "\<dots> = x" by (simp add: x_def pe)
  finally show ?thesis by (simp add: x_def)
qed

lemma f64_round_exact_le:
  assumes m: "m \<le> 2 ^ 53" and e: "- 1074 \<le> e"
  shows "f64_round (of_nat m * pow2 e) = of_nat m * pow2 e"
proof -
  consider "m = 0" | "0 < m" "m < 2 ^ 53" | "m = 2 ^ 53" using m by linarith
  then show ?thesis
  proof cases
    case 1 then show ?thesis by (simp add: f64_round_zero)
  next
    case 2 then show ?thesis using e by (simp add: f64_round_exact)
  next
    case 3
    have "(of_nat m :: rat) * pow2 e = of_nat (2 ^ 52) * pow2 (e + 1)"
      by (simp add: 3 pow2_add pow2_one)
    moreover have "f64_round (of_nat (2 ^ 52) * pow2 (e + 1)) = of_nat (2 ^ 52) * pow2 (e + 1)"
      using e by (intro f64_round_exact) simp_all
    ultimately show ?thesis by simp
  qed
qed

text \<open>The rounded value has a significand of at most 53 bits.\<close>

lemma f64_round_significand:
  assumes "0 < x"
  shows "\<exists>m. m \<le> 2 ^ 53 \<and> f64_round x = of_nat m * pow2 (f64_exponent x)"
proof -
  define e where "e = f64_exponent x"
  have ge: "flog2 x - 52 \<le> e" by (simp add: e_def f64_exponent_flog2)
  have "x < pow2 (flog2 x + 1)" using flog2_bounds [OF assms] by simp
  also have "\<dots> \<le> pow2 (53 + e)" using ge by (simp add: pow2_le_iff)
  finally have "x / pow2 e < pow2 53" using pow2_pos [of e] by (simp add: pow2_add pos_divide_less_eq)
  then have "x / pow2 e \<le> of_int (2 ^ 53)" by (simp add: pow2_numeral)
  then have up: "round_half_even (x / pow2 e) \<le> 2 ^ 53" by (rule round_half_even_le)
  have "0 \<le> x / pow2 e" using assms pow2_pos [of e] by (simp add: less_imp_le)
  then have lo: "0 \<le> round_half_even (x / pow2 e)" by (rule round_half_even_nonneg)
  define m where "m = nat (round_half_even (x / pow2 e))"
  have "m \<le> 2 ^ 53" using up lo by (simp add: m_def nat_le_iff)
  moreover have "f64_round x = of_nat m * pow2 e"
    using lo by (simp add: f64_round_def e_def [symmetric] m_def)
  ultimately show ?thesis unfolding e_def by blast
qed

subsection \<open>The conversions of \<open>GetSysInfo\<close>\<close>

lemma SYSINFO_LOADS_SCALE_eq: "SYSINFO_LOADS_SCALE = 65536"
  by (simp add: SYSINFO_LOADS_SCALE_def)

lemma SYSINFO_MEM_UNIT_eq: "SYSINFO_MEM_UNIT = 1048576"
  by (simp add: SYSINFO_MEM_UNIT_def)

lemma uint_div_MEM_UNIT:
  "uint ((x :: uint64) div of_nat SYSINFO_MEM_UNIT) = uint x div 1048576"
  by (simp add: SYSINFO_MEM_UNIT_eq uint_div)

lemma float64_of_uint64_nonneg: "0 \<le> float64_of_uint64 u"
  unfolding float64_of_uint64_def by (rule f64_round_nonneg) (rule of_nat_0_le_iff)

lemma float64_of_uint64_exact:
  assumes "u < 2 ^ 53"
  shows "float64_of_uint64 u = of_nat (unat u)"
proof -
  have "unat u < 2 ^ 53" using assms by (simp add: word_less_nat_alt)
  then have "f64_round (of_nat (unat u) * pow2 0) = of_nat (unat u) * pow2 0"
    by (intro f64_round_exact_le) simp_all
  then show ?thesis by (simp add: float64_of_uint64_def pow2_def)
qed

lemma flog2_nonneg:
  assumes "1 \<le> x"
  shows "0 \<le> flog2 x"
proof -
  have "0 < x" using assms by simp
  from flog2_bounds [OF this] assms have "pow2 0 < pow2 (flog2 x + 1)"
    by (simp add: pow2_def)
  then show ?thesis by (simp add: pow2_less_iff)
qed

text \<open>Dividing a converted unsigned integer by \<open>2 ^ 16\<close> is exact in float64.\<close>

lemma f64_div_LOADS_SCALE_exact:
  "f64_div (float64_of_uint64 u) (of_nat SYSINFO_LOADS_SCALE) = float64_of_uint64 u / 65536"
proof (cases "unat u = 0")
  case True
  then show ?thesis
    by (simp add: float64_of_uint64_def f64_div_def f64_round_zero)
next
  case False
  define x :: rat where "x = of_nat (unat u)"
  have "1 \<le> unat u" using False by simp
  then have "(of_nat 1 :: rat) \<le> of_nat (unat u)" by (simp only: of_nat_le_iff)
  then have x1: "1 \<le> x" by (simp only: x_def of_nat_1)
  then have xpos: "0 < x" by simp
  obtain m where m: "m \<le> 2 ^ 53" and r: "f64_round x = of_nat m * pow2 (f64_exponent x)"
    using f64_round_significand [OF xpos] by blast
  have e: "- 52 \<le> f64_exponent x"
    using flog2_nonneg [OF x1] by (simp add: f64_exponent_flog2)
  have p16: "pow2 16 = 65536" by (simp add: pow2_numeral)
  have "f64_round x / 65536 = of_nat m * pow2 (f64_exponent x - 16)"
    by (simp add: r pow2_diff p16)
  moreover have "f64_round (of_nat m * pow2 (f64_exponent x - 16)) = of_nat m * pow2 (f64_exponent x - 16)"
    using m e by (intro f64_round_exact_le) simp_all
  ultimately have "f64_round (f64_round x / 65536) = f64_round x / 65536" by simp
  then show ?thesis
    by (simp add: f64_div_def float64_of_uint64_def x_def SYSINFO_LOADS_SCALE_eq)
qed

lemma Loads_GetSysInfo_assign:
  "i < 3 \<Longrightarrow> index3 (Loads (GetSysInfo_assign sys_ref)) i =
     f64_div (float64_of_uint64 (index3 (Sysinfo_t.Loads sys_ref) i)) (of_nat SYSINFO_LOADS_SCALE)"
  by (cases "Sysinfo_t.Loads sys_ref")
     (auto simp: GetSysInfo_assign_def sys_t_zero_def Let_def)

lemma mem_GetSysInfo_assign:
  "TotalRam (GetSysInfo_assign sys_ref) = Totalram sys_ref div of_nat SYSINFO_MEM_UNIT"
  "FreeRam (GetSysInfo_assign sys_ref) = Freeram sys_ref div of_nat SYSINFO_MEM_UNIT"
  "SharedRam (GetSysInfo_assign sys_ref) = Sharedram sys_ref div of_nat SYSINFO_MEM_UNIT"
  "BufferRam (GetSysInfo_assign sys_ref) = Bufferram sys_ref div of_nat SYSINFO_MEM_UNIT"
  "TotalSwap (GetSysInfo_assign sys_ref) = Totalswap sys_ref div of_nat SYSINFO_MEM_UNIT"
  "FreeSwap (GetSysInfo_assign sys_ref) = Freeswap sys_ref div of_nat SYSINFO_MEM_UNIT"
  "TotalHigh (GetSysInfo_assign sys_ref) = Totalhigh sys_ref div of_nat SYSINFO_MEM_UNIT"
  "FreeHigh (GetSysInfo_assign sys_ref) = Freehigh sys_ref div of_nat SYSINFO_MEM_UNIT"
  "Procs (GetSysInfo_assign sys_ref) = Sysinfo_t.Procs sys_ref"
  "UpTime (GetSysInfo_assign sys_ref) = Uptime sys_ref"
  by (simp_all add: GetSysInfo_assign_def sys_t_zero_def Let_def)

subsection \<open>Running the reporters\<close>

lemma return_io_run [simp]: "return_io x w = (Inr x, w)"
  by (simp add: return_io_def)

lemma panic_run [simp]: "panic v w = (Inl (Panic v), w)"
  by (simp add: panic_def)

lemma Printf_run [simp]: "Printf s w = (Inr (), w\<lparr>stdout := stdout w @ s\<rparr>)"
  by (simp add: Printf_def)

lemma when_io_True [simp]: "when_io True m = m"
  by (simp add: when_io_def)

lemma when_io_False [simp]: "when_io False m w = (Inr (), w)"
  by (simp add: when_io_def)

lemma Printfs_run: "Printfs ss w = (Inr (), w\<lparr>stdout := stdout w @ concat ss\<rparr>)"
  by (induction ss arbitrary: w) (simp_all add: then_io_def bind_io_def)

lemma query_run:
  "query q w = (case q (queries w) of Inl err \<Rightarrow> (Inl (Panic (Error err)), asked w)
                                   | Inr x \<Rightarrow> (Inr x, asked w))"
  by (simp add: query_def asked_def split: sum.splits)

lemma GetHostName_run:
  "GetHostName env w = (case os_Hostname env (queries w) of
       Inl err \<Rightarrow> (Inl (Panic (Error err)), asked w) | Inr h \<Rightarrow> (Inr h, asked w))"
  by (simp add: GetHostName_def bind_io_def query_run split: sum.splits)

lemma GetSysInfo_run:
  "GetSysInfo env w = (case syscall_Sysinfo env (queries w) of
       Inl err \<Rightarrow> (Inl (Panic (Error err)), asked w)
     | Inr sys_ref \<Rightarrow> (Inr (GetSysInfo_assign sys_ref), asked w))"
  by (simp add: GetSysInfo_def bind_io_def query_run split: sum.splits)

lemma GetCPUInfo_run:
  "GetCPUInfo env w = (case cpu_Info env (queries w) of
       Inl err \<Rightarrow> (Inl (Panic (Error err)), asked w) | Inr cpu_info \<Rightarrow> (Inr cpu_info, asked w))"
  by (simp add: GetCPUInfo_def bind_io_def query_run split: sum.splits)

lemma GetNetworkInterface_run:
  "GetNetworkInterface env w = (case net_Interfaces env (queries w) of
       Inl err \<Rightarrow> (Inl (Panic (Error err)), asked w) | Inr ifaces \<Rightarrow> (Inr ifaces, asked w))"
  by (simp add: GetNetworkInterface_def bind_io_def query_run split: sum.splits)

lemma PrintCPUInfo_loop_run:
  "PrintCPUInfo_loop env cpu_info i w =
     (Inr (), w\<lparr>stdout := stdout w @ CPUInfo_printed env (drop i cpu_info)\<rparr>)"
proof (induction env cpu_info i w rule: PrintCPUInfo_loop.induct)
  case (1 env cpu_info i w)
  show ?case
  proof (cases "i < length cpu_info")
    case True
    then have d: "drop i cpu_info = cpu_info ! i # drop (Suc i) cpu_info"
      by (simp add: Cons_nth_drop_Suc)
    have p: "Printfs (CPUInfo_lines env (cpu_info ! i)) w
          = (Inr (), w\<lparr>stdout := stdout w @ concat (CPUInfo_lines env (cpu_info ! i))\<rparr>)"
      by (rule Printfs_run)
    show ?thesis
      using True 1 [OF True p [symmetric] refl]
      by (simp add: PrintCPUInfo_loop.simps [of env cpu_info i w] p d CPUInfo_printed_def)
  next
    case False
    then show ?thesis
      by (simp add: PrintCPUInfo_loop.simps [of env cpu_info i w] CPUInfo_printed_def)
  qed
qed

lemma PrintNetworkInterface_loop_run:
  "PrintNetworkInterface_loop env ifaces i w =
     (Inr (), w\<lparr>stdout := stdout w
        @ concat (map (\<lambda>i. TAB @ TAB @ fmt_v_Interface env i @ NL) (drop i ifaces))\<rparr>)"
proof (induction env ifaces i w rule: PrintNetworkInterface_loop.induct)
  case (1 env ifaces i w)
  show ?case
  proof (cases "i < length ifaces")
    case True
    then have d: "drop i ifaces = ifaces ! i # drop (Suc i) ifaces"
      by (simp add: Cons_nth_drop_Suc)
    have p: "Printf (TAB @ TAB @ fmt_v_Interface env (ifaces ! i) @ NL) w
          = (Inr (), w\<lparr>stdout := stdout w @ (TAB @ TAB @ fmt_v_Interface env (ifaces ! i) @ NL)\<rparr>)"
      by (rule Printf_run)
    show ?thesis
      using True 1 [OF True p [symmetric] refl]
      by (simp add: PrintNetworkInterface_loop.simps [of env ifaces i w] d)
  next
    case False
    then show ?thesis
      by (simp add: PrintNetworkInterface_loop.simps [of env ifaces i w])
  qed
qed

lemma PrintHostName_run:
  "PrintHostName env w = (case os_Hostname env (queries w) of
       Inl err \<Rightarrow> (Inl (Panic (Error err)), asked w)
     | Inr h \<Rightarrow> (Inr (), (asked w)\<lparr>stdout := stdout w @ HostName_text h\<rparr>))"
  by (simp add: PrintHostName_def bind_io_def GetHostName_run HostName_text_def asked_def
      split: sum.splits)

lemma PrintOSName_run:
  "PrintOSName env w = (Inr (), w\<lparr>stdout := stdout w @ OSName_text env\<rparr>)"
  by (simp add: PrintOSName_def then_io_def bind_io_def OSName_text_def)

lemma PrintSysInfo_run:
  "PrintSysInfo env w = (case syscall_Sysinfo env (queries w) of
       Inl err \<Rightarrow> (Inl (Panic (Error err)), asked w)
     | Inr sys_ref \<Rightarrow> (Inr (), (asked w)\<lparr>stdout := stdout w @ SysInfo_printed env sys_ref\<rparr>))"
  by (simp add: PrintSysInfo_def bind_io_def GetSysInfo_run Printfs_run SysInfo_printed_def asked_def
      split: sum.splits)

lemma PrintCPUInfo_run:
  "PrintCPUInfo env w = (case cpu_Info env (queries w) of
       Inl err \<Rightarrow> (Inl (Panic (Error err)), asked w)
     | Inr cpu_info \<Rightarrow> (Inr (), (asked w)\<lparr>stdout := stdout w @ CPUInfo_printed env cpu_info\<rparr>))"
  by (simp add: PrintCPUInfo_def bind_io_def GetCPUInfo_run PrintCPUInfo_loop_run asked_def
      split: sum.splits)

lemma PrintNetworkInterface_run:
  "PrintNetworkInterface env w = (case net_Interfaces env (queries w) of
       Inl err \<Rightarrow> (Inl (Panic (Error err)), asked w)
     | Inr ifaces \<Rightarrow>
         (if ifaces = [] then (Inl (Panic (IndexOutOfRange 0 0)), asked w)
          else (Inr (), (asked w)\<lparr>stdout := stdout w @ NetworkInterface_text env ifaces\<rparr>)))"
proof (cases "net_Interfaces env (queries w)")
  case (Inl err)
  then show ?thesis
    by (simp add: PrintNetworkInterface_def bind_io_def GetNetworkInterface_run)
next
  case (Inr ifaces)
  show ?thesis
  proof (cases ifaces)
    case Nil
    with Inr show ?thesis
      by (simp add: PrintNetworkInterface_def bind_io_def GetNetworkInterface_run index_io_def)
  next
    case (Cons a as)
    with Inr show ?thesis
      by (simp add: PrintNetworkInterface_def bind_io_def then_io_def GetNetworkInterface_run
          index_io_def PrintNetworkInterface_loop_run NetworkInterface_text_def asked_def)
  qed
qed

subsection \<open>Running \<open>main\<close>\<close>

lemma then_io_run:
  "then_io m n w = (case m w of (Inl a, w') \<Rightarrow> (Inl a, w') | (Inr u, w') \<Rightarrow> n w')"
  by (simp add: then_io_def bind_io_def)

lemma queries_asked [simp]: "queries (asked w) = Suc (queries w)"
  by (simp add: asked_def)

lemma stdout_asked [simp]: "stdout (asked w) = stdout w"
  by (simp add: asked_def)

lemma fmt_d_1: "fmt_d 1 = ''1''"
  by (simp add: fmt_d_def digits.simps)

lemma main_run:
  assumes "flag_Parse flags_default args = Inr fl"
  shows "main env (prog # args) =
     then_io (Printf (fmt_d (int (Suc (length args))) @ NL))
       (if args = [] then
          then_io (PrintHostName env)
         (then_io (PrintNetworkInterface env)
         (then_io (PrintOSName env)
         (then_io (PrintSysInfo env)
                  (PrintCPUInfo env))))
        else
          then_io (when_io (hn fl) (PrintHostName env))
         (then_io (when_io (OS fl) (then_io (PrintSysInfo env) (PrintCPUInfo env)))
         (then_io (when_io (cpu fl) (PrintCPUInfo env))
                  (when_io (netw fl) (PrintNetworkInterface env)))))"
  using assms by (simp add: main_def)

text \<open>Every reporter only appends to standard output, whether it panics or not.\<close>

lemma PrintCPUInfo_appends: "\<exists>t. stdout (snd (PrintCPUInfo env w)) = stdout w @ t"
  by (simp add: PrintCPUInfo_run split: sum.splits)

lemma PrintNetworkInterface_appends:
  "\<exists>t. stdout (snd (PrintNetworkInterface env w)) = stdout w @ t"
  by (simp add: PrintNetworkInterface_run split: sum.splits)

lemma when_io_appends:
  assumes "\<And>w. \<exists>t. stdout (snd (m w)) = stdout w @ t"
  shows "\<exists>t. stdout (snd (when_io b m w)) = stdout w @ t"
  using assms by (cases b) simp_all

lemma then_io_appends:
  assumes m: "\<And>w. \<exists>t. stdout (snd (m w)) = stdout w @ t"
    and n: "\<And>w. \<exists>t. stdout (snd (n w)) = stdout w @ t"
  shows "\<exists>t. stdout (snd (then_io m n w)) = stdout w @ t"
proof (cases "m w")
  case (Pair r w')
  from m [of w] Pair obtain t where t: "stdout w' = stdout w @ t" by auto
  show ?thesis
  proof (cases r)
    case (Inl a)
    with Pair t show ?thesis by (simp add: then_io_run)
  next
    case (Inr u)
    from n [of w'] obtain t' where "stdout (snd (n w')) = stdout w' @ t'" by auto
    with Pair Inr t show ?thesis by (simp add: then_io_run)
  qed
qed

lemma cpu_then_network_appends:
  "\<exists>t. stdout (snd (then_io (when_io c (PrintCPUInfo env))
                           (when_io n (PrintNetworkInterface env)) w)) = stdout w @ t"
  by (intro then_io_appends when_io_appends PrintCPUInfo_appends PrintNetworkInterface_appends)

lemma network_appends:
  "\<exists>t. stdout (snd (when_io n (PrintNetworkInterface env) w)) = stdout w @ t"
  by (intro when_io_appends PrintNetworkInterface_appends)

text \<open>The run with no argument.\<close>

lemma main_no_arguments_dispatch:
  "main env [prog] =
     then_io (Printf (''1'' @ NL))
    (then_io (PrintHostName env)
    (then_io (PrintNetworkInterface env)
    (then_io (PrintOSName env)
    (then_io (PrintSysInfo env)
             (PrintCPUInfo env)))))"
  by (simp add: main_run [of "[]" flags_default] fmt_d_1)

lemma main_no_arguments_run:
  assumes "os_Hostname env (queries w) = Inr h"
    and "net_Interfaces env (Suc (queries w)) = Inr ifaces" and "ifaces \<noteq> []"
    and "syscall_Sysinfo env (Suc (Suc (queries w))) = Inr sys_ref"
    and "cpu_Info env (Suc (Suc (Suc (queries w)))) = Inr cpu_info"
  shows "main env [prog] w =
     (Inr (), w\<lparr>stdout := stdout w @ ''1'' @ NL @ HostName_text h
                    @ NetworkInterface_text env ifaces @ OSName_text env
                    @ SysInfo_printed env sys_ref @ CPUInfo_printed env cpu_info,
                 queries := Suc (Suc (Suc (Suc (queries w))))\<rparr>)"
  using assms
  by (simp add: main_no_arguments_dispatch then_io_run PrintHostName_run
      PrintNetworkInterface_run PrintOSName_run PrintSysInfo_run PrintCPUInfo_run asked_def)

lemma fmt_d_2: "fmt_d 2 = ''2''"
  by (simp add: fmt_d_def digits.simps)

lemma fmt_d_3: "fmt_d 3 = ''3''"
  by (simp add: fmt_d_def digits.simps)

text \<open>The run with flags: only \<open>-hostname\<close> set, and \<open>-os\<close> set.\<close>

lemma main_hostname_only_run:
  assumes "flag_Parse flags_default args = Inr fl"
    and "hn fl" and "\<not> OS fl" and "\<not> cpu fl" and "\<not> netw fl"
  shows "main env (prog # args) w =
     (case os_Hostname env (queries w) of
        Inl err \<Rightarrow>
          (Inl (Panic (Error err)),
           w\<lparr>stdout := stdout w @ fmt_d (int (Suc (length args))) @ NL,
             queries := Suc (queries w)\<rparr>)
      | Inr h \<Rightarrow>
          (Inr (),
           w\<lparr>stdout := stdout w @ fmt_d (int (Suc (length args))) @ NL @ HostName_text h,
             queries := Suc (queries w)\<rparr>))"
proof -
  have "args \<noteq> []" using assms(1,2) by (auto simp: flags_default_def)
  then show ?thesis
    using assms
    by (simp add: main_run [OF assms(1)] then_io_run PrintHostName_run asked_def
        split: sum.splits)
qed

lemma main_os_run:
  assumes "flag_Parse flags_default args = Inr fl" and "OS fl"
    and "hn fl \<longrightarrow> os_Hostname env (queries w) = Inr h"
    and "syscall_Sysinfo env (if hn fl then Suc (queries w) else queries w) = Inr sys_ref"
    and "cpu_Info env (Suc (if hn fl then Suc (queries w) else queries w)) = Inr cpu_info"
  shows "main env (prog # args) w =
     then_io (when_io (cpu fl) (PrintCPUInfo env)) (when_io (netw fl) (PrintNetworkInterface env))
       (w\<lparr>queries := Suc (Suc (if hn fl then Suc (queries w) else queries w)),
           stdout := stdout w @ fmt_d (int (Suc (length args))) @ NL
                    @ (if hn fl then HostName_text h else [])
                    @ SysInfo_printed env sys_ref @ CPUInfo_printed env cpu_info\<rparr>)"
proof -
  have ne: "args \<noteq> []" using assms(1,2) by (auto simp: flags_default_def)
  show ?thesis
  proof (cases "hn fl")
    case True
    with assms ne show ?thesis
      by (simp add: main_run [OF assms(1)] then_io_run [of "Printf _"]
          then_io_run [of "PrintHostName _"] then_io_run [of "PrintSysInfo _"]
          then_io_run [of "then_io (PrintSysInfo _) _"]
          PrintHostName_run PrintSysInfo_run PrintCPUInfo_run asked_def)
  next
    case False
    with assms ne show ?thesis
      by (simp add: main_run [OF assms(1)] then_io_run [of "Printf _"]
          then_io_run [of "return_io _"] then_io_run [of "PrintSysInfo _"]
          then_io_run [of "then_io (PrintSysInfo _) _"] when_io_def
          PrintSysInfo_run PrintCPUInfo_run asked_def)
  qed
qed

lemma main_os_cpu_run:
  assumes "flag_Parse flags_default args = Inr fl" and "OS fl" and "cpu fl"
    and "hn fl \<longrightarrow> os_Hostname env (queries w) = Inr h"
    and "syscall_Sysinfo env (if hn fl then Suc (queries w) else queries w) = Inr sys_ref"
    and "cpu_Info env (Suc (if hn fl then Suc (queries w) else queries w)) = Inr cpu_info"
    and "cpu_Info env (Suc (Suc (if hn fl then Suc (queries w) else queries w))) = Inr cpu_info'"
  shows "main env (prog # args) w =
     when_io (netw fl) (PrintNetworkInterface env)
       (w\<lparr>queries := Suc (Suc (Suc (if hn fl then Suc (queries w) else queries w))),
           stdout := stdout w @ fmt_d (int (Suc (length args))) @ NL
                    @ (if hn fl then HostName_text h else [])
                    @ SysInfo_printed env sys_ref @ CPUInfo_printed env cpu_info
                    @ CPUInfo_printed env cpu_info'\<rparr>)"
  using assms(3,7)
  by (simp add: main_os_run [OF assms(1,2,4,5,6)] then_io_run PrintCPUInfo_run asked_def)

lemma cpu_not_around_sys:
  assumes C: "C \<noteq> []" "hd C = CHR ''c''" and Y: "Y \<noteq> []" "hd Y = CHR ''s''"
  shows "''3'' @ NL @ Y @ C @ C \<noteq> pre @ C @ Y @ C @ post"
proof
  assume eq: "''3'' @ NL @ Y @ C @ C = pre @ C @ Y @ C @ post"
  from C obtain C' where C': "C = CHR ''c'' # C'" by (cases C) auto
  from Y obtain Y' where Y': "Y = CHR ''s'' # Y'" by (cases Y) auto
  from arg_cong [OF eq, of length] have len: "length pre + length post = 2"
    by (simp add: NL_def)
  show False
  proof (cases pre)
    case Nil
    with eq show False by (simp add: C')
  next
    case (Cons a pre1)
    show False
    proof (cases pre1)
      case Nil
      with eq Cons show False by (simp add: C' NL_def)
    next
      case (Cons b pre2)
      with len \<open>pre = a # pre1\<close> have "pre2 = []" by simp
      with eq Cons \<open>pre = a # pre1\<close> show False by (simp add: C' Y' NL_def)
    qed
  qed
qed

lemma fmt_d_8192: "fmt_d 8192 = ''8192''"
  by (simp add: fmt_d_def digits.simps)

text \<open>Some command lines.\<close>

lemma flag_Parse_hostname:
  "flag_Parse flags_default [''--hostname''] = Inr \<lparr>hn = True, OS = False, cpu = False, netw = False\<rparr>"
  by (simp add: flag_Parse.simps flags_default_def flag_Set_def flag_formal_def)

lemma flag_Parse_os:
  "flag_Parse flags_default [''--os''] = Inr \<lparr>hn = False, OS = True, cpu = False, netw = False\<rparr>"
  by (simp add: flag_Parse.simps flags_default_def flag_Set_def flag_formal_def)

lemma flag_Parse_os_cpu:
  "flag_Parse flags_default [''--os'', ''--cpu'']
     = Inr \<lparr>hn = False, OS = True, cpu = True, netw = False\<rparr>"
  by (simp add: flag_Parse.simps flags_default_def flag_Set_def flag_formal_def)

lemma flag_Parse_network:
  "flag_Parse flags_default [''--network''] = Inr \<lparr>hn = False, OS = False, cpu = False, netw = True\<rparr>"
  by (simp add: flag_Parse.simps flags_default_def flag_Set_def flag_formal_def)

text \<open>The run with no argument when a query fails.\<close>

lemma main_no_arguments_hostname_fails:
  assumes "os_Hostname env (queries w) = Inl err"
  shows "main env [prog] w =
     (Inl (Panic (Error err)), w\<lparr>stdout := stdout w @ ''1'' @ NL, queries := Suc (queries w)\<rparr>)"
  using assms
  by (simp add: main_no_arguments_dispatch then_io_run PrintHostName_run asked_def)

lemma main_no_arguments_interfaces_fail:
  assumes "os_Hostname env (queries w) = Inr h"
    and "net_Interfaces env (Suc (queries w)) = Inl err"
  shows "main env [prog] w =
     (Inl (Panic (Error err)),
      w\<lparr>stdout := stdout w @ ''1'' @ NL @ HostName_text h, queries := Suc (Suc (queries w))\<rparr>)"
  using assms
  by (simp add: main_no_arguments_dispatch then_io_run PrintHostName_run
      PrintNetworkInterface_run asked_def)

lemma main_no_arguments_sysinfo_fails:
  assumes "os_Hostname env (queries w) = Inr h"
    and "net_Interfaces env (Suc (queries w)) = Inr ifaces" and "ifaces \<noteq> []"
    and "syscall_Sysinfo env (Suc (Suc (queries w))) = Inl err"
  shows "main env [prog] w =
     (Inl (Panic (Error err)),
      w\<lparr>stdout := stdout w @ ''1'' @ NL @ HostName_text h
                     @ NetworkInterface_text env ifaces @ OSName_text env,
        queries := Suc (Suc (Suc (queries w)))\<rparr>)"
  using assms
  by (simp add: main_no_arguments_dispatch then_io_run PrintHostName_run
      PrintNetworkInterface_run PrintOSName_run PrintSysInfo_run asked_def)

lemma main_no_arguments_cpu_fails:
  assumes "os_Hostname env (queries w) = Inr h"
    and "net_Interfaces env (Suc (queries w)) = Inr ifaces" and "ifaces \<noteq> []"
    and "syscall_Sysinfo env (Suc (Suc (queries w))) = Inr sys_ref"
    and "cpu_Info env (Suc (Suc (Suc (queries w)))) = Inl err"
  shows "main env [prog] w =
     (Inl (Panic (Error err)),
      w\<lparr>stdout := stdout w @ ''1'' @ NL @ HostName_text h
                     @ NetworkInterface_text env ifaces @ OSName_text env
                     @ SysInfo_printed env sys_ref,
        queries := Suc (Suc (Suc (Suc (queries w))))\<rparr>)"
  using assms
  by (simp add: main_no_arguments_dispatch then_io_run PrintHostName_run
      PrintNetworkInterface_run PrintOSName_run PrintSysInfo_run PrintCPUInfo_run asked_def)

text \<open>The run with \<open>-os\<close> set when the system-info or the CPU query fails.\<close>

lemma main_os_sysinfo_fails:
  assumes "flag_Parse flags_default args = Inr fl" and "OS fl"
    and "hn fl \<longrightarrow> os_Hostname env (queries w) = Inr h"
    and "syscall_Sysinfo env (if hn fl then Suc (queries w) else queries w) = Inl err"
  shows "main env (prog # args) w =
     (Inl (Panic (Error err)),
      w\<lparr>queries := Suc (if hn fl then Suc (queries w) else queries w),
        stdout := stdout w @ fmt_d (int (Suc (length args))) @ NL
                    @ (if hn fl then HostName_text h else [])\<rparr>)"
proof -
  have ne: "args \<noteq> []" using assms(1,2) by (auto simp: flags_default_def)
  show ?thesis
  proof (cases "hn fl")
    case True
    with assms ne show ?thesis
      by (simp add: main_run [OF assms(1)] then_io_run [of "Printf _"]
          then_io_run [of "PrintHostName _"] then_io_run [of "PrintSysInfo _"]
          then_io_run [of "then_io (PrintSysInfo _) _"]
          PrintHostName_run PrintSysInfo_run asked_def)
  next
    case False
    with assms ne show ?thesis
      by (simp add: main_run [OF assms(1)] then_io_run [of "Printf _"]
          then_io_run [of "return_io _"] then_io_run [of "PrintSysInfo _"]
          then_io_run [of "then_io (PrintSysInfo _) _"] when_io_def
          PrintSysInfo_run asked_def)
  qed
qed

lemma main_os_cpu_fails:
  assumes "flag_Parse flags_default args = Inr fl" and "OS fl"
    and "hn fl \<longrightarrow> os_Hostname env (queries w) = Inr h"
    and "syscall_Sysinfo env (if hn fl then Suc (queries w) else queries w) = Inr sys_ref"
    and "cpu_Info env (Suc (if hn fl then Suc (queries w) else queries w)) = Inl err"
  shows "main env (prog # args) w =
     (Inl (Panic (Error err)),
      w\<lparr>queries := Suc (Suc (if hn fl then Suc (queries w) else queries w)),
        stdout := stdout w @ fmt_d (int (Suc (length args))) @ NL
                    @ (if hn fl then HostName_text h else [])
                    @ SysInfo_printed env sys_ref\<rparr>)"
proof -
  have ne: "args \<noteq> []" using assms(1,2) by (auto simp: flags_default_def)
  show ?thesis
  proof (cases "hn fl")
    case True
    with assms ne show ?thesis
      by (simp add: main_run [OF assms(1)] then_io_run [of "Printf _"]
          then_io_run [of "PrintHostName _"] then_io_run [of "PrintSysInfo _"]
          then_io_run [of "then_io (PrintSysInfo _) _"]
          PrintHostName_run PrintSysInfo_run PrintCPUInfo_run asked_def)
  next
    case False
    with assms ne show ?thesis
      by (simp add: main_run [OF assms(1)] then_io_run [of "Printf _"]
          then_io_run [of "return_io _"] then_io_run [of "PrintSysInfo _"]
          then_io_run [of "then_io (PrintSysInfo _) _"] when_io_def
          PrintSysInfo_run PrintCPUInfo_run asked_def)
  qed
qed

text \<open>Some numbers in decimal, and the records of the concrete machine as text.\<close>

lemma fmt_d_small:
  "fmt_d 0 = ''0''" "fmt_d 7 = ''7''" "fmt_d 100 = ''100''" "fmt_d 200 = ''200''"
  "fmt_d 1024 = ''1024''" "fmt_d 36608 = ''36608''"
  by (simp_all add: fmt_d_def digits.simps)

lemma SysInfo_text_si0:
  "fmt_2_2f env = (\<lambda>_. ''0.00'') \<Longrightarrow> SysInfo_text env si0 =
     ''sys uptime:'' @ TAB @ ''100'' @ NL
     @ ''sys load avg:'' @ TAB @ ''0.00, 0.00, 0.00'' @ NL
     @ ''sys totalRam:'' @ TAB @ ''8192 MB'' @ NL
     @ ''sys freeRam:'' @ TAB @ ''8192 MB'' @ NL
     @ ''sys sharedRam:'' @ TAB @ ''0 MB'' @ NL
     @ ''sys bufferRam:'' @ TAB @ ''0 MB'' @ NL
     @ ''sys totalSwap:'' @ TAB @ ''0 MB'' @ NL
     @ ''sys freeSwap:'' @ TAB @ ''0 MB'' @ NL
     @ ''sys totalHigh:'' @ TAB @ ''0 MB'' @ NL
     @ ''sys freeHigh:'' @ TAB @ ''0 MB'' @ NL
     @ ''sys procs:'' @ TAB @ ''200'' @ NL"
  by (simp add: SysInfo_text_def si0_def fmt_d_small fmt_d_8192)

lemma CPU_record_text_cpu0:
  "fmt_g env = (\<lambda>_. ''2500'') \<Longrightarrow> CPU_record_text env cpu0 =
     ''cpuID:'' @ TAB @ ''0'' @ NL
     @ ''--vendorID:'' @ TAB @ ''GenuineIntel'' @ NL
     @ ''--family:'' @ TAB @ ''6'' @ NL
     @ ''--model:'' @ TAB @ ''85'' @ NL
     @ ''--stepping:'' @ TAB @ ''7'' @ NL
     @ ''--physicalID:'' @ TAB @ ''0'' @ NL
     @ ''--coreID:'' @ TAB @ ''0'' @ NL
     @ ''--cores:'' @ TAB @ ''1'' @ NL
     @ ''--modelName:'' @ TAB @ ''Xeon'' @ NL
     @ ''--MHz:'' @ TAB @ TAB @ ''2500'' @ NL
     @ ''--facheSize:'' @ TAB @ ''36608'' @ NL
     @ ''--flags:'' @ TAB @ ''[fpu vme]'' @ NL
     @ ''--Microcode:'' @ TAB @ ''0x1'' @ NL"
  by (simp add: CPU_record_text_def cpu0_def fmt_d_small fmt_d_1 fmt_v_strings_def)

lemma CPU_record_text_cpu1:
  "fmt_g env = (\<lambda>_. ''2500'') \<Longrightarrow> CPU_record_text env cpu1 =
     ''cpuID:'' @ TAB @ ''1'' @ NL
     @ ''--vendorID:'' @ TAB @ ''GenuineIntel'' @ NL
     @ ''--family:'' @ TAB @ ''6'' @ NL
     @ ''--model:'' @ TAB @ ''85'' @ NL
     @ ''--stepping:'' @ TAB @ ''7'' @ NL
     @ ''--physicalID:'' @ TAB @ ''0'' @ NL
     @ ''--coreID:'' @ TAB @ ''1'' @ NL
     @ ''--cores:'' @ TAB @ ''1'' @ NL
     @ ''--modelName:'' @ TAB @ ''Xeon'' @ NL
     @ ''--MHz:'' @ TAB @ TAB @ ''2500'' @ NL
     @ ''--facheSize:'' @ TAB @ ''36608'' @ NL
     @ ''--flags:'' @ TAB @ ''[fpu vme]'' @ NL
     @ ''--Microcode:'' @ TAB @ ''0x1'' @ NL"
  by (simp add: CPU_record_text_def cpu1_def cpu0_def fmt_d_small fmt_d_1 fmt_v_strings_def)

subsection \<open>The claims\<close>

text \<open>
  C1 (fails on the code): on a machine whose interface enumeration succeeds with an
  empty list, \<open>--network\<close> does not report "no interfaces": \<open>PrintNetworkInterface\<close>
  reads \<open>ifaces[0]\<close> unchecked, and the process panics with an index out of range
  after the argument-count line.
\<close>

theorem network_report_panics_without_interfaces:
  "net_Interfaces box_no_ifaces 0 = Inr []
   \<and> main box_no_ifaces [''machineInfo'', ''--network''] start
       = (Inl (Panic (IndexOutOfRange 0 0)), \<lparr>stdout = ''2'' @ NL, queries = 1\<rparr>)"
  by (simp add: main_run [OF flag_Parse_network] then_io_run PrintNetworkInterface_run
      box_no_ifaces_def box_def start_def asked_def fmt_d_2)

text \<open>
  C2 as stated (every run with no argument runs the five reporters and then exits)
  fails: on a machine whose hostname query fails the process panics in the first
  reporter, with only the argument-count line written.
\<close>

theorem main_no_arguments_counterexample:
  "os_Hostname broken (queries start) = Inl ''EFAULT''
   \<and> main broken [''machineInfo''] start
       = (Inl (Panic (Error ''EFAULT'')), \<lparr>stdout = ''1'' @ NL, queries = 1\<rparr>)
   \<and> fst (main broken [''machineInfo''] start) \<noteq> Inr ()"
proof -
  have h: "os_Hostname broken (queries start) = Inl ''EFAULT''"
    by (simp add: broken_def)
  from main_no_arguments_hostname_fails [OF h, of "''machineInfo''"]
  have "main broken [''machineInfo''] start
       = (Inl (Panic (Error ''EFAULT'')), \<lparr>stdout = ''1'' @ NL, queries = 1\<rparr>)"
    by (simp add: start_def)
  with h show ?thesis by simp
qed

text \<open>
  C2, amended: with no argument \<open>main\<close> prints the argument count and runs the hostname,
  network, OS-name, system-stats and CPU reporters in this order, each reporter being
  fatal when its query fails. When the four queries succeed and there is an interface,
  standard output gets the five sections in that order and the run ends normally with
  four queries made. When a query fails, the process panics with that query's error,
  and standard output holds the sections of the reporters before it and nothing of
  the later ones.
\<close>

theorem main_no_arguments_runs_five_reporters:
  "(os_Hostname env (queries w) = Inr h
      \<and> net_Interfaces env (Suc (queries w)) = Inr ifaces \<and> ifaces \<noteq> []
      \<and> syscall_Sysinfo env (Suc (Suc (queries w))) = Inr sys_ref
      \<and> cpu_Info env (Suc (Suc (Suc (queries w)))) = Inr cpu_info
      \<longrightarrow> main env [prog] w =
         (Inr (), w\<lparr>stdout := stdout w @ ''1'' @ NL @ HostName_text h
                        @ NetworkInterface_text env ifaces @ OSName_text env
                        @ SysInfo_text env sys_ref @ CPUInfo_text env cpu_info,
                     queries := Suc (Suc (Suc (Suc (queries w))))\<rparr>))
   \<and> (os_Hostname env (queries w) = Inl err
      \<longrightarrow> main env [prog] w =
         (Inl (Panic (Error err)),
          w\<lparr>stdout := stdout w @ ''1'' @ NL, queries := Suc (queries w)\<rparr>))
   \<and> (os_Hostname env (queries w) = Inr h
      \<and> net_Interfaces env (Suc (queries w)) = Inl err
      \<longrightarrow> main env [prog] w =
         (Inl (Panic (Error err)),
          w\<lparr>stdout := stdout w @ ''1'' @ NL @ HostName_text h,
            queries := Suc (Suc (queries w))\<rparr>))
   \<and> (os_Hostname env (queries w) = Inr h
      \<and> net_Interfaces env (Suc (queries w)) = Inr ifaces \<and> ifaces \<noteq> []
      \<and> syscall_Sysinfo env (Suc (Suc (queries w))) = Inl err
      \<longrightarrow> main env [prog] w =
         (Inl (Panic (Error err)),
          w\<lparr>stdout := stdout w @ ''1'' @ NL @ HostName_text h
                         @ NetworkInterface_text env ifaces @ OSName_text env,
            queries := Suc (Suc (Suc (queries w)))\<rparr>))
   \<and> (os_Hostname env (queries w) = Inr h
      \<and> net_Interfaces env (Suc (queries w)) = Inr ifaces \<and> ifaces \<noteq> []
      \<and> syscall_Sysinfo env (Suc (Suc (queries w))) = Inr sys_ref
      \<and> cpu_Info env (Suc (Suc (Suc (queries w)))) = Inl err
      \<longrightarrow> main env [prog] w =
         (Inl (Panic (Error err)),
          w\<lparr>stdout := stdout w @ ''1'' @ NL @ HostName_text h
                         @ NetworkInterface_text env ifaces @ OSName_text env
                         @ SysInfo_text env sys_ref,
            queries := Suc (Suc (Suc (Suc (queries w))))\<rparr>))"
proof -
  have sys: "SysInfo_printed env s = SysInfo_text env s" for s
    by (cases "Sysinfo_t.Loads s")
       (simp add: SysInfo_printed_def SysInfo_lines_def SysInfo_text_def GetSysInfo_assign_def
          sys_t_zero_def Let_def f64_div_LOADS_SCALE_exact SYSINFO_MEM_UNIT_eq uint_div)
  have "(\<lambda>c. concat (CPUInfo_lines env c)) = CPU_record_text env"
    by (simp add: fun_eq_iff CPUInfo_lines_def CPU_record_text_def)
  then have cpu: "CPUInfo_printed env cs = CPUInfo_text env cs" for cs
    by (simp add: CPUInfo_printed_def CPUInfo_text_def)
  show ?thesis
    using main_no_arguments_run [of env w h ifaces sys_ref cpu_info prog]
      main_no_arguments_hostname_fails [of env w err prog]
      main_no_arguments_interfaces_fail [of env w h err prog]
      main_no_arguments_sysinfo_fails [of env w h ifaces err prog]
      main_no_arguments_cpu_fails [of env w h ifaces sys_ref err prog]
    unfolding sys cpu by (intro conjI impI) blast+
qed

theorem main_no_arguments_runs_five_reporters_witness:
  "os_Hostname box (queries start) = Inr ''box''
   \<and> net_Interfaces box (Suc (queries start)) = Inr [lo] \<and> [lo] \<noteq> []
   \<and> syscall_Sysinfo box (Suc (Suc (queries start))) = Inr si0
   \<and> cpu_Info box (Suc (Suc (Suc (queries start)))) = Inr [cpu0]
   \<and> main box [''machineInfo''] start =
         (Inr (), \<lparr>stdout = ''1'' @ NL @ HostName_text ''box''
                        @ NetworkInterface_text box [lo] @ OSName_text box
                        @ SysInfo_text box si0 @ CPUInfo_text box [cpu0],
                     queries = 4\<rparr>)
   \<and> os_Hostname broken (queries start) = Inl ''EFAULT''
   \<and> main broken [''machineInfo''] start =
         (Inl (Panic (Error ''EFAULT'')), \<lparr>stdout = ''1'' @ NL, queries = 1\<rparr>)
   \<and> net_Interfaces (box\<lparr>net_Interfaces := (\<lambda>_. Inl ''EMFILE'')\<rparr>) (Suc (queries start))
       = Inl ''EMFILE''
   \<and> main (box\<lparr>net_Interfaces := (\<lambda>_. Inl ''EMFILE'')\<rparr>) [''machineInfo''] start =
         (Inl (Panic (Error ''EMFILE'')),
          \<lparr>stdout = ''1'' @ NL @ HostName_text ''box'', queries = 2\<rparr>)
   \<and> syscall_Sysinfo (box\<lparr>syscall_Sysinfo := (\<lambda>_. Inl ''EFAULT'')\<rparr>) (Suc (Suc (queries start)))
       = Inl ''EFAULT''
   \<and> main (box\<lparr>syscall_Sysinfo := (\<lambda>_. Inl ''EFAULT'')\<rparr>) [''machineInfo''] start =
         (Inl (Panic (Error ''EFAULT'')),
          \<lparr>stdout = ''1'' @ NL @ HostName_text ''box''
             @ NetworkInterface_text (box\<lparr>syscall_Sysinfo := (\<lambda>_. Inl ''EFAULT'')\<rparr>) [lo]
             @ OSName_text (box\<lparr>syscall_Sysinfo := (\<lambda>_. Inl ''EFAULT'')\<rparr>), queries = 3\<rparr>)
   \<and> cpu_Info (box\<lparr>cpu_Info := (\<lambda>_. Inl ''ENOENT'')\<rparr>) (Suc (Suc (Suc (queries start))))
       = Inl ''ENOENT''
   \<and> main (box\<lparr>cpu_Info := (\<lambda>_. Inl ''ENOENT'')\<rparr>) [''machineInfo''] start =
         (Inl (Panic (Error ''ENOENT'')),
          \<lparr>stdout = ''1'' @ NL @ HostName_text ''box''
             @ NetworkInterface_text (box\<lparr>cpu_Info := (\<lambda>_. Inl ''ENOENT'')\<rparr>) [lo]
             @ OSName_text (box\<lparr>cpu_Info := (\<lambda>_. Inl ''ENOENT'')\<rparr>)
             @ SysInfo_text (box\<lparr>cpu_Info := (\<lambda>_. Inl ''ENOENT'')\<rparr>) si0, queries = 4\<rparr>)"
proof -
  define e2 where "e2 = box\<lparr>net_Interfaces := (\<lambda>_. Inl ''EMFILE'')\<rparr>"
  define e3 where "e3 = box\<lparr>syscall_Sysinfo := (\<lambda>_. Inl ''EFAULT'')\<rparr>"
  define e4 where "e4 = box\<lparr>cpu_Info := (\<lambda>_. Inl ''ENOENT'')\<rparr>"
  note T = main_no_arguments_runs_five_reporters
  have h: "os_Hostname box (queries start) = Inr ''box''"
    "net_Interfaces box (Suc (queries start)) = Inr [lo]" "[lo] \<noteq> []"
    "syscall_Sysinfo box (Suc (Suc (queries start))) = Inr si0"
    "cpu_Info box (Suc (Suc (Suc (queries start)))) = Inr [cpu0]"
    by (simp_all add: box_def)
  have h1: "os_Hostname broken (queries start) = Inl ''EFAULT''"
    by (simp add: broken_def)
  have h2: "os_Hostname e2 (queries start) = Inr ''box''"
    "net_Interfaces e2 (Suc (queries start)) = Inl ''EMFILE''"
    by (simp_all add: e2_def box_def)
  have h3: "os_Hostname e3 (queries start) = Inr ''box''"
    "net_Interfaces e3 (Suc (queries start)) = Inr [lo]"
    "syscall_Sysinfo e3 (Suc (Suc (queries start))) = Inl ''EFAULT''"
    by (simp_all add: e3_def box_def)
  have h4: "os_Hostname e4 (queries start) = Inr ''box''"
    "net_Interfaces e4 (Suc (queries start)) = Inr [lo]"
    "syscall_Sysinfo e4 (Suc (Suc (queries start))) = Inr si0"
    "cpu_Info e4 (Suc (Suc (Suc (queries start)))) = Inl ''ENOENT''"
    by (simp_all add: e4_def box_def)
  have r0: "main box [''machineInfo''] start =
         (Inr (), \<lparr>stdout = ''1'' @ NL @ HostName_text ''box''
                        @ NetworkInterface_text box [lo] @ OSName_text box
                        @ SysInfo_text box si0 @ CPUInfo_text box [cpu0],
                     queries = 4\<rparr>)"
    using T [of box start "''box''" "[lo]" si0 "[cpu0]" "''machineInfo''", THEN conjunct1] h
    by (simp add: start_def)
  have r1: "main broken [''machineInfo''] start =
         (Inl (Panic (Error ''EFAULT'')), \<lparr>stdout = ''1'' @ NL, queries = 1\<rparr>)"
    using T [of broken start _ _ _ _ "''machineInfo''" "''EFAULT''",
        THEN conjunct2, THEN conjunct1] h1
    by (simp add: start_def)
  have r2: "main e2 [''machineInfo''] start =
         (Inl (Panic (Error ''EMFILE'')),
          \<lparr>stdout = ''1'' @ NL @ HostName_text ''box'', queries = 2\<rparr>)"
    using T [of e2 start "''box''" _ _ _ "''machineInfo''" "''EMFILE''",
        THEN conjunct2, THEN conjunct2, THEN conjunct1] h2
    by (simp add: start_def)
  have r3: "main e3 [''machineInfo''] start =
         (Inl (Panic (Error ''EFAULT'')),
          \<lparr>stdout = ''1'' @ NL @ HostName_text ''box'' @ NetworkInterface_text e3 [lo]
             @ OSName_text e3, queries = 3\<rparr>)"
    using T [of e3 start "''box''" "[lo]" _ _ "''machineInfo''" "''EFAULT''",
        THEN conjunct2, THEN conjunct2, THEN conjunct2, THEN conjunct1] h3
    by (simp add: start_def)
  have r4: "main e4 [''machineInfo''] start =
         (Inl (Panic (Error ''ENOENT'')),
          \<lparr>stdout = ''1'' @ NL @ HostName_text ''box'' @ NetworkInterface_text e4 [lo]
             @ OSName_text e4 @ SysInfo_text e4 si0, queries = 4\<rparr>)"
    using T [of e4 start "''box''" "[lo]" si0 _ "''machineInfo''" "''ENOENT''",
        THEN conjunct2, THEN conjunct2, THEN conjunct2, THEN conjunct2] h4
    by (simp add: start_def)
  from h h1 h2(2) h3(3) h4(4) r0 r1 r2 r3 r4 show ?thesis
    unfolding e2_def e3_def e4_def by blast
qed

text \<open>
  C3: when the system-info query succeeds, each of the three load averages of the
  returned record is the float64 conversion of the raw value divided by \<open>65536\<close>, the
  float64 division being exact here (for a raw value below \<open>2 ^ 53\<close> the conversion is
  exact too, so the load is the raw value over \<open>65536\<close>); and each of the eight memory
  fields is the raw field divided by \<open>1048576\<close>, rounded down.
\<close>

theorem GetSysInfo_scales_loads_and_memory:
  assumes "syscall_Sysinfo env (queries w) = Inr sys_ref"
  shows "\<exists>sys_obj. GetSysInfo env w = (Inr sys_obj, asked w)
    \<and> (\<forall>i<3. index3 (Loads sys_obj) i
          = float64_of_uint64 (index3 (Sysinfo_t.Loads sys_ref) i) / 65536
        \<and> (index3 (Sysinfo_t.Loads sys_ref) i < 2 ^ 53 \<longrightarrow>
             index3 (Loads sys_obj) i = of_nat (unat (index3 (Sysinfo_t.Loads sys_ref) i)) / 65536))
    \<and> uint (TotalRam sys_obj) = uint (Totalram sys_ref) div 1048576
    \<and> uint (FreeRam sys_obj) = uint (Freeram sys_ref) div 1048576
    \<and> uint (SharedRam sys_obj) = uint (Sharedram sys_ref) div 1048576
    \<and> uint (BufferRam sys_obj) = uint (Bufferram sys_ref) div 1048576
    \<and> uint (TotalSwap sys_obj) = uint (Totalswap sys_ref) div 1048576
    \<and> uint (FreeSwap sys_obj) = uint (Freeswap sys_ref) div 1048576
    \<and> uint (TotalHigh sys_obj) = uint (Totalhigh sys_ref) div 1048576
    \<and> uint (FreeHigh sys_obj) = uint (Freehigh sys_ref) div 1048576"
proof -
  have run: "GetSysInfo env w = (Inr (GetSysInfo_assign sys_ref), asked w)"
    using assms by (simp add: GetSysInfo_run)
  have loads: "\<forall>i<3. index3 (Loads (GetSysInfo_assign sys_ref)) i
          = float64_of_uint64 (index3 (Sysinfo_t.Loads sys_ref) i) / 65536
        \<and> (index3 (Sysinfo_t.Loads sys_ref) i < 2 ^ 53 \<longrightarrow>
             index3 (Loads (GetSysInfo_assign sys_ref)) i
               = of_nat (unat (index3 (Sysinfo_t.Loads sys_ref) i)) / 65536)"
  proof (intro allI impI conjI)
    fix i :: nat
    assume i: "i < 3"
    show a: "index3 (Loads (GetSysInfo_assign sys_ref)) i
          = float64_of_uint64 (index3 (Sysinfo_t.Loads sys_ref) i) / 65536"
      using i by (simp add: Loads_GetSysInfo_assign f64_div_LOADS_SCALE_exact)
    assume "index3 (Sysinfo_t.Loads sys_ref) i < 2 ^ 53"
    then show "index3 (Loads (GetSysInfo_assign sys_ref)) i
          = of_nat (unat (index3 (Sysinfo_t.Loads sys_ref) i)) / 65536"
      by (simp only: a float64_of_uint64_exact)
  qed
  have mem: "uint (TotalRam (GetSysInfo_assign sys_ref)) = uint (Totalram sys_ref) div 1048576
    \<and> uint (FreeRam (GetSysInfo_assign sys_ref)) = uint (Freeram sys_ref) div 1048576
    \<and> uint (SharedRam (GetSysInfo_assign sys_ref)) = uint (Sharedram sys_ref) div 1048576
    \<and> uint (BufferRam (GetSysInfo_assign sys_ref)) = uint (Bufferram sys_ref) div 1048576
    \<and> uint (TotalSwap (GetSysInfo_assign sys_ref)) = uint (Totalswap sys_ref) div 1048576
    \<and> uint (FreeSwap (GetSysInfo_assign sys_ref)) = uint (Freeswap sys_ref) div 1048576
    \<and> uint (TotalHigh (GetSysInfo_assign sys_ref)) = uint (Totalhigh sys_ref) div 1048576
    \<and> uint (FreeHigh (GetSysInfo_assign sys_ref)) = uint (Freehigh sys_ref) div 1048576"
    by (simp add: mem_GetSysInfo_assign uint_div_MEM_UNIT)
  from run loads mem show ?thesis by blast
qed

theorem GetSysInfo_scales_loads_and_memory_witness:
  "syscall_Sysinfo box (queries start) = Inr si0
   \<and> (\<exists>sys_obj. GetSysInfo box start = (Inr sys_obj, \<lparr>stdout = [], queries = 1\<rparr>)
        \<and> index3 (Loads sys_obj) 0 = 1 \<and> index3 (Loads sys_obj) 1 = 1 / 2
        \<and> index3 (Loads sys_obj) 2 = 0
        \<and> uint (TotalRam sys_obj) = 8192 \<and> uint (FreeRam sys_obj) = 1024
        \<and> uint (BufferRam sys_obj) = 0)"
proof -
  have reply: "syscall_Sysinfo box (queries start) = Inr si0"
    by (simp add: box_def start_def)
  from GetSysInfo_scales_loads_and_memory [OF reply]
  obtain sys_obj where run: "GetSysInfo box start = (Inr sys_obj, asked start)"
    and loads: "\<forall>i<3. index3 (Loads sys_obj) i
          = float64_of_uint64 (index3 (Sysinfo_t.Loads si0) i) / 65536
        \<and> (index3 (Sysinfo_t.Loads si0) i < 2 ^ 53 \<longrightarrow>
             index3 (Loads sys_obj) i = of_nat (unat (index3 (Sysinfo_t.Loads si0) i)) / 65536)"
    and mem: "uint (TotalRam sys_obj) = uint (Totalram si0) div 1048576"
      "uint (FreeRam sys_obj) = uint (Freeram si0) div 1048576"
      "uint (BufferRam sys_obj) = uint (Bufferram si0) div 1048576"
    by blast
  have l0: "index3 (Loads sys_obj) 0 = 1"
    using loads [rule_format, of 0] by (simp add: si0_def)
  have l1: "index3 (Loads sys_obj) 1 = 1 / 2"
    using loads [rule_format, of 1] by (simp add: si0_def)
  have l2: "index3 (Loads sys_obj) 2 = 0"
    using loads [rule_format, of 2] by (simp add: si0_def)
  have w: "asked start = \<lparr>stdout = [], queries = 1\<rparr>"
    by (simp add: asked_def start_def)
  have m: "uint (TotalRam sys_obj) = 8192" "uint (FreeRam sys_obj) = 1024"
    "uint (BufferRam sys_obj) = 0"
    using mem by (simp_all add: si0_def)
  from reply run l0 l1 l2 m show ?thesis unfolding w by blast
qed

text \<open>
  C4: each of \<open>GetHostName\<close>, \<open>GetSysInfo\<close>, \<open>GetCPUInfo\<close> and
  \<open>GetNetworkInterface\<close> puts exactly one query to the operating system and writes
  nothing; it panics, with the query's error, if and only if that one reply is an
  error, and otherwise returns the reply: the hostname, the CPU records and the
  interfaces as they are, and for \<open>GetSysInfo\<close> the record whose fields are those of the
  reply (uptime and process count copied, loads over \<open>65536\<close>, memory fields over
  \<open>1048576\<close>). There is no second query, no fallback value and no partial result.
\<close>

theorem query_functions_panic_iff_query_error:
  "GetHostName env w =
     (case os_Hostname env (queries w) of
        Inl err \<Rightarrow> (Inl (Panic (Error err)), asked w) | Inr h \<Rightarrow> (Inr h, asked w))
   \<and> GetSysInfo env w =
     (case syscall_Sysinfo env (queries w) of
        Inl err \<Rightarrow> (Inl (Panic (Error err)), asked w)
      | Inr sys_ref \<Rightarrow>
          (Inr \<lparr>UpTime = Uptime sys_ref,
                Loads = Array3 (float64_of_uint64 (index3 (Sysinfo_t.Loads sys_ref) 0) / 65536)
                               (float64_of_uint64 (index3 (Sysinfo_t.Loads sys_ref) 1) / 65536)
                               (float64_of_uint64 (index3 (Sysinfo_t.Loads sys_ref) 2) / 65536),
                TotalRam = Totalram sys_ref div 1048576,
                FreeRam = Freeram sys_ref div 1048576,
                SharedRam = Sharedram sys_ref div 1048576,
                BufferRam = Bufferram sys_ref div 1048576,
                TotalSwap = Totalswap sys_ref div 1048576,
                FreeSwap = Freeswap sys_ref div 1048576,
                Procs = Sysinfo_t.Procs sys_ref,
                TotalHigh = Totalhigh sys_ref div 1048576,
                FreeHigh = Freehigh sys_ref div 1048576\<rparr>,
           asked w))
   \<and> GetCPUInfo env w =
     (case cpu_Info env (queries w) of
        Inl err \<Rightarrow> (Inl (Panic (Error err)), asked w) | Inr cpu_info \<Rightarrow> (Inr cpu_info, asked w))
   \<and> GetNetworkInterface env w =
     (case net_Interfaces env (queries w) of
        Inl err \<Rightarrow> (Inl (Panic (Error err)), asked w) | Inr ifaces \<Rightarrow> (Inr ifaces, asked w))
   \<and> isl (fst (GetHostName env w)) = isl (os_Hostname env (queries w))
   \<and> isl (fst (GetSysInfo env w)) = isl (syscall_Sysinfo env (queries w))
   \<and> isl (fst (GetCPUInfo env w)) = isl (cpu_Info env (queries w))
   \<and> isl (fst (GetNetworkInterface env w)) = isl (net_Interfaces env (queries w))"
proof -
  have "GetSysInfo_assign sys_ref =
     \<lparr>UpTime = Uptime sys_ref,
      Loads = Array3 (float64_of_uint64 (index3 (Sysinfo_t.Loads sys_ref) 0) / 65536)
                     (float64_of_uint64 (index3 (Sysinfo_t.Loads sys_ref) 1) / 65536)
                     (float64_of_uint64 (index3 (Sysinfo_t.Loads sys_ref) 2) / 65536),
      TotalRam = Totalram sys_ref div 1048576,
      FreeRam = Freeram sys_ref div 1048576,
      SharedRam = Sharedram sys_ref div 1048576,
      BufferRam = Bufferram sys_ref div 1048576,
      TotalSwap = Totalswap sys_ref div 1048576,
      FreeSwap = Freeswap sys_ref div 1048576,
      Procs = Sysinfo_t.Procs sys_ref,
      TotalHigh = Totalhigh sys_ref div 1048576,
      FreeHigh = Freehigh sys_ref div 1048576\<rparr>" for sys_ref
    by (cases "Sysinfo_t.Loads sys_ref")
       (simp add: GetSysInfo_assign_def sys_t_zero_def Let_def f64_div_LOADS_SCALE_exact
          SYSINFO_MEM_UNIT_eq)
  then show ?thesis
    by (simp add: GetHostName_def GetSysInfo_def GetCPUInfo_def GetNetworkInterface_def
        bind_io_def query_def asked_def split: sum.splits)
qed

theorem query_functions_panic_iff_query_error_witness:
  "GetHostName broken start = (Inl (Panic (Error ''EFAULT'')), \<lparr>stdout = [], queries = 1\<rparr>)
   \<and> GetHostName box start = (Inr ''box'', \<lparr>stdout = [], queries = 1\<rparr>)
   \<and> GetSysInfo broken start = (Inl (Panic (Error ''EFAULT'')), \<lparr>stdout = [], queries = 1\<rparr>)
   \<and> GetSysInfo box start =
       (Inr \<lparr>UpTime = 100, Loads = Array3 1 (1 / 2) 0, TotalRam = 8192, FreeRam = 1024,
             SharedRam = 0, BufferRam = 0, TotalSwap = 0, FreeSwap = 0, Procs = 200,
             TotalHigh = 0, FreeHigh = 0\<rparr>,
        \<lparr>stdout = [], queries = 1\<rparr>)
   \<and> GetCPUInfo broken start = (Inl (Panic (Error ''ENOENT'')), \<lparr>stdout = [], queries = 1\<rparr>)
   \<and> GetCPUInfo box start = (Inr [cpu0], \<lparr>stdout = [], queries = 1\<rparr>)
   \<and> GetNetworkInterface broken start = (Inl (Panic (Error ''EMFILE'')), \<lparr>stdout = [], queries = 1\<rparr>)
   \<and> GetNetworkInterface box start = (Inr [lo], \<lparr>stdout = [], queries = 1\<rparr>)"
proof -
  have l: "float64_of_uint64 65536 = 65536" "float64_of_uint64 32768 = 32768"
    "float64_of_uint64 0 = 0"
    by (simp_all add: float64_of_uint64_exact)
  show ?thesis
    using query_functions_panic_iff_query_error [of broken start]
      query_functions_panic_iff_query_error [of box start]
    by (simp add: broken_def box_def start_def asked_def si0_def l)
qed

text \<open>
  C5 as stated (standard output is the hostname line and nothing else) fails: with
  \<open>--hostname\<close> alone the output starts with the line of \<open>fmt.Println(len(os.Args))\<close>.
\<close>

theorem hostname_flag_output_counterexample:
  "flag_Parse flags_default [''--hostname'']
     = Inr \<lparr>hn = True, OS = False, cpu = False, netw = False\<rparr>
   \<and> os_Hostname box (queries start) = Inr ''box''
   \<and> stdout (snd (main box [''machineInfo'', ''--hostname''] start))
       = ''2'' @ NL @ HostName_text ''box''
   \<and> stdout (snd (main box [''machineInfo'', ''--hostname''] start)) \<noteq> HostName_text ''box''"
  by (simp add: flag_Parse_hostname main_hostname_only_run [OF flag_Parse_hostname]
      box_def start_def fmt_d_2 HostName_text_def NL_def TAB_def)

text \<open>
  C5, amended: when \<open>-hostname\<close> is the only flag set, standard output gets the line
  with the number of arguments and then, if the hostname query succeeds, exactly the
  hostname line; if the query fails the process panics after the first line. No other
  section is printed and only the hostname is queried.
\<close>

theorem hostname_flag_output:
  assumes "flag_Parse flags_default args = Inr fl"
    and "hn fl" and "\<not> OS fl" and "\<not> cpu fl" and "\<not> netw fl"
  shows "main env (prog # args) w =
     (case os_Hostname env (queries w) of
        Inl err \<Rightarrow>
          (Inl (Panic (Error err)),
           w\<lparr>stdout := stdout w @ fmt_d (int (Suc (length args))) @ NL,
             queries := Suc (queries w)\<rparr>)
      | Inr h \<Rightarrow>
          (Inr (),
           w\<lparr>stdout := stdout w @ fmt_d (int (Suc (length args))) @ NL @ HostName_text h,
             queries := Suc (queries w)\<rparr>))"
  using assms by (rule main_hostname_only_run)

theorem hostname_flag_output_witness:
  "flag_Parse flags_default [''--hostname'']
     = Inr \<lparr>hn = True, OS = False, cpu = False, netw = False\<rparr>
   \<and> main box [''machineInfo'', ''--hostname''] start
       = (Inr (), \<lparr>stdout = ''2'' @ NL @ HostName_text ''box'', queries = 1\<rparr>)
   \<and> main broken [''machineInfo'', ''--hostname''] start
       = (Inl (Panic (Error ''EFAULT'')), \<lparr>stdout = ''2'' @ NL, queries = 1\<rparr>)"
  using hostname_flag_output [OF flag_Parse_hostname, of box "''machineInfo''" start]
    hostname_flag_output [OF flag_Parse_hostname, of broken "''machineInfo''" start]
  by (simp add: flag_Parse_hostname box_def broken_def start_def fmt_d_2)

text \<open>
  C6 as stated (every run with \<open>--os\<close> prints the system-stats and the CPU section)
  fails: on a machine whose system-info query fails the process panics with only the
  argument-count line written.
\<close>

theorem os_flag_counterexample:
  "flag_Parse flags_default [''--os''] = Inr \<lparr>hn = False, OS = True, cpu = False, netw = False\<rparr>
   \<and> syscall_Sysinfo broken (queries start) = Inl ''EFAULT''
   \<and> main broken [''machineInfo'', ''--os''] start
       = (Inl (Panic (Error ''EFAULT'')), \<lparr>stdout = ''2'' @ NL, queries = 1\<rparr>)"
proof -
  have h: "syscall_Sysinfo broken (if hn \<lparr>hn = False, OS = True, cpu = False, netw = False\<rparr>
      then Suc (queries start) else queries start) = Inl ''EFAULT''"
    by (simp add: broken_def)
  have "main broken (''machineInfo'' # [''--os'']) start =
     (Inl (Panic (Error ''EFAULT'')),
      start\<lparr>queries := Suc (if hn \<lparr>hn = False, OS = True, cpu = False, netw = False\<rparr>
                then Suc (queries start) else queries start),
        stdout := stdout start @ fmt_d (int (Suc (length [''--os'']))) @ NL
                    @ (if hn \<lparr>hn = False, OS = True, cpu = False, netw = False\<rparr>
                       then HostName_text undefined else [])\<rparr>)"
    by (rule main_os_sysinfo_fails [OF flag_Parse_os _ _ h]) simp_all
  then have "main broken [''machineInfo'', ''--os''] start
       = (Inl (Panic (Error ''EFAULT'')), \<lparr>stdout = ''2'' @ NL, queries = 1\<rparr>)"
    by (simp add: start_def fmt_d_2)
  moreover have "syscall_Sysinfo broken (queries start) = Inl ''EFAULT''"
    by (simp add: broken_def)
  ultimately show ?thesis using flag_Parse_os by blast
qed

text \<open>
  C6, amended: when \<open>-os\<close> is set and the queries made up to there succeed (the hostname
  query if \<open>-hostname\<close> is set too, the system-info query and the CPU query), standard
  output gets the system-stats section directly followed by the CPU section, after the
  argument count and the hostname line if asked for; only the reports of \<open>-cpu\<close> and
  \<open>-network\<close> can follow, and no OS-name line is printed. When the system-info query
  fails the process panics before either section, and when the CPU query fails it
  panics after the system-stats section.
\<close>

theorem os_flag_prints_sysinfo_then_cpu:
  assumes "flag_Parse flags_default args = Inr fl" and "OS fl"
  shows
   "((hn fl \<longrightarrow> os_Hostname env (queries w) = Inr h)
       \<and> syscall_Sysinfo env (if hn fl then Suc (queries w) else queries w) = Inr sys_ref
       \<and> cpu_Info env (Suc (if hn fl then Suc (queries w) else queries w)) = Inr cpu_info
       \<longrightarrow> main env (prog # args) w =
             then_io (when_io (cpu fl) (PrintCPUInfo env))
                     (when_io (netw fl) (PrintNetworkInterface env))
               (w\<lparr>queries := Suc (Suc (if hn fl then Suc (queries w) else queries w)),
                   stdout := stdout w @ fmt_d (int (Suc (length args))) @ NL
                     @ (if hn fl then HostName_text h else [])
                     @ SysInfo_text env sys_ref @ CPUInfo_text env cpu_info\<rparr>)
           \<and> (\<exists>post. stdout (snd (main env (prog # args) w)) =
                stdout w @ fmt_d (int (Suc (length args))) @ NL
                  @ (if hn fl then HostName_text h else [])
                  @ SysInfo_text env sys_ref @ CPUInfo_text env cpu_info @ post))
    \<and> ((hn fl \<longrightarrow> os_Hostname env (queries w) = Inr h)
       \<and> syscall_Sysinfo env (if hn fl then Suc (queries w) else queries w) = Inl err
       \<longrightarrow> main env (prog # args) w =
             (Inl (Panic (Error err)),
              w\<lparr>queries := Suc (if hn fl then Suc (queries w) else queries w),
                stdout := stdout w @ fmt_d (int (Suc (length args))) @ NL
                    @ (if hn fl then HostName_text h else [])\<rparr>))
    \<and> ((hn fl \<longrightarrow> os_Hostname env (queries w) = Inr h)
       \<and> syscall_Sysinfo env (if hn fl then Suc (queries w) else queries w) = Inr sys_ref
       \<and> cpu_Info env (Suc (if hn fl then Suc (queries w) else queries w)) = Inl err
       \<longrightarrow> main env (prog # args) w =
             (Inl (Panic (Error err)),
              w\<lparr>queries := Suc (Suc (if hn fl then Suc (queries w) else queries w)),
                stdout := stdout w @ fmt_d (int (Suc (length args))) @ NL
                    @ (if hn fl then HostName_text h else [])
                    @ SysInfo_text env sys_ref\<rparr>))"
proof -
  have sys: "SysInfo_printed env s = SysInfo_text env s" for s
    by (cases "Sysinfo_t.Loads s")
       (simp add: SysInfo_printed_def SysInfo_lines_def SysInfo_text_def GetSysInfo_assign_def
          sys_t_zero_def Let_def f64_div_LOADS_SCALE_exact SYSINFO_MEM_UNIT_eq uint_div)
  have "(\<lambda>c. concat (CPUInfo_lines env c)) = CPU_record_text env"
    by (simp add: fun_eq_iff CPUInfo_lines_def CPU_record_text_def)
  then have cpu: "CPUInfo_printed env cs = CPUInfo_text env cs" for cs
    by (simp add: CPUInfo_printed_def CPUInfo_text_def)
  show ?thesis
  proof (intro conjI impI)
  assume a: "(hn fl \<longrightarrow> os_Hostname env (queries w) = Inr h)
       \<and> syscall_Sysinfo env (if hn fl then Suc (queries w) else queries w) = Inr sys_ref
       \<and> cpu_Info env (Suc (if hn fl then Suc (queries w) else queries w)) = Inr cpu_info"
  define w' where "w' = w\<lparr>queries := Suc (Suc (if hn fl then Suc (queries w) else queries w)),
           stdout := stdout w @ fmt_d (int (Suc (length args))) @ NL
                    @ (if hn fl then HostName_text h else [])
                    @ SysInfo_text env sys_ref @ CPUInfo_text env cpu_info\<rparr>"
  from a have run: "main env (prog # args) w =
     then_io (when_io (cpu fl) (PrintCPUInfo env)) (when_io (netw fl) (PrintNetworkInterface env)) w'"
    unfolding w'_def by (intro main_os_run [OF assms, where env = env, unfolded sys cpu]) simp_all
  then show "main env (prog # args) w =
             then_io (when_io (cpu fl) (PrintCPUInfo env))
                     (when_io (netw fl) (PrintNetworkInterface env))
               (w\<lparr>queries := Suc (Suc (if hn fl then Suc (queries w) else queries w)),
                   stdout := stdout w @ fmt_d (int (Suc (length args))) @ NL
                     @ (if hn fl then HostName_text h else [])
                     @ SysInfo_text env sys_ref @ CPUInfo_text env cpu_info\<rparr>)"
    unfolding w'_def .
  from cpu_then_network_appends [of "cpu fl" env "netw fl" w']
  obtain t where "stdout (snd (main env (prog # args) w)) = stdout w' @ t"
    unfolding run by blast
  then show "\<exists>post. stdout (snd (main env (prog # args) w)) =
              stdout w @ fmt_d (int (Suc (length args))) @ NL
                @ (if hn fl then HostName_text h else [])
                @ SysInfo_text env sys_ref @ CPUInfo_text env cpu_info @ post"
    by (simp add: w'_def)
next
  assume "(hn fl \<longrightarrow> os_Hostname env (queries w) = Inr h)
       \<and> syscall_Sysinfo env (if hn fl then Suc (queries w) else queries w) = Inl err"
  then show "main env (prog # args) w =
             (Inl (Panic (Error err)),
              w\<lparr>queries := Suc (if hn fl then Suc (queries w) else queries w),
                stdout := stdout w @ fmt_d (int (Suc (length args))) @ NL
                    @ (if hn fl then HostName_text h else [])\<rparr>)"
    by (intro main_os_sysinfo_fails [OF assms]) simp_all
next
  assume "(hn fl \<longrightarrow> os_Hostname env (queries w) = Inr h)
       \<and> syscall_Sysinfo env (if hn fl then Suc (queries w) else queries w) = Inr sys_ref
       \<and> cpu_Info env (Suc (if hn fl then Suc (queries w) else queries w)) = Inl err"
  then show "main env (prog # args) w =
             (Inl (Panic (Error err)),
              w\<lparr>queries := Suc (Suc (if hn fl then Suc (queries w) else queries w)),
                stdout := stdout w @ fmt_d (int (Suc (length args))) @ NL
                    @ (if hn fl then HostName_text h else [])
                    @ SysInfo_text env sys_ref\<rparr>)"
    by (intro main_os_cpu_fails [OF assms, where env = env, unfolded sys]) simp_all
qed
qed

theorem os_flag_prints_sysinfo_then_cpu_witness:
  "flag_Parse flags_default [''--os''] = Inr \<lparr>hn = False, OS = True, cpu = False, netw = False\<rparr>
   \<and> syscall_Sysinfo box (queries start) = Inr si0
   \<and> cpu_Info box (Suc (queries start)) = Inr [cpu0]
   \<and> main box [''machineInfo'', ''--os''] start =
       (Inr (),
        \<lparr>stdout = ''2'' @ NL
           @ ''sys uptime:'' @ TAB @ ''100'' @ NL
           @ ''sys load avg:'' @ TAB @ ''0.00, 0.00, 0.00'' @ NL
           @ ''sys totalRam:'' @ TAB @ ''8192 MB'' @ NL
           @ ''sys freeRam:'' @ TAB @ ''8192 MB'' @ NL
           @ ''sys sharedRam:'' @ TAB @ ''0 MB'' @ NL
           @ ''sys bufferRam:'' @ TAB @ ''0 MB'' @ NL
           @ ''sys totalSwap:'' @ TAB @ ''0 MB'' @ NL
           @ ''sys freeSwap:'' @ TAB @ ''0 MB'' @ NL
           @ ''sys totalHigh:'' @ TAB @ ''0 MB'' @ NL
           @ ''sys freeHigh:'' @ TAB @ ''0 MB'' @ NL
           @ ''sys procs:'' @ TAB @ ''200'' @ NL
           @ ''cpuID:'' @ TAB @ ''0'' @ NL
           @ ''--vendorID:'' @ TAB @ ''GenuineIntel'' @ NL
           @ ''--family:'' @ TAB @ ''6'' @ NL
           @ ''--model:'' @ TAB @ ''85'' @ NL
           @ ''--stepping:'' @ TAB @ ''7'' @ NL
           @ ''--physicalID:'' @ TAB @ ''0'' @ NL
           @ ''--coreID:'' @ TAB @ ''0'' @ NL
           @ ''--cores:'' @ TAB @ ''1'' @ NL
           @ ''--modelName:'' @ TAB @ ''Xeon'' @ NL
           @ ''--MHz:'' @ TAB @ TAB @ ''2500'' @ NL
           @ ''--facheSize:'' @ TAB @ ''36608'' @ NL
           @ ''--flags:'' @ TAB @ ''[fpu vme]'' @ NL
           @ ''--Microcode:'' @ TAB @ ''0x1'' @ NL,
          queries = 2\<rparr>)
   \<and> syscall_Sysinfo broken (queries start) = Inl ''EFAULT''
   \<and> main broken [''machineInfo'', ''--os''] start =
       (Inl (Panic (Error ''EFAULT'')), \<lparr>stdout = ''2'' @ NL, queries = 1\<rparr>)
   \<and> cpu_Info (box\<lparr>cpu_Info := (\<lambda>_. Inl ''ENOENT'')\<rparr>) (Suc (queries start)) = Inl ''ENOENT''
   \<and> main (box\<lparr>cpu_Info := (\<lambda>_. Inl ''ENOENT'')\<rparr>) [''machineInfo'', ''--os''] start =
       (Inl (Panic (Error ''ENOENT'')),
        \<lparr>stdout = ''2'' @ NL
           @ ''sys uptime:'' @ TAB @ ''100'' @ NL
           @ ''sys load avg:'' @ TAB @ ''0.00, 0.00, 0.00'' @ NL
           @ ''sys totalRam:'' @ TAB @ ''8192 MB'' @ NL
           @ ''sys freeRam:'' @ TAB @ ''8192 MB'' @ NL
           @ ''sys sharedRam:'' @ TAB @ ''0 MB'' @ NL
           @ ''sys bufferRam:'' @ TAB @ ''0 MB'' @ NL
           @ ''sys totalSwap:'' @ TAB @ ''0 MB'' @ NL
           @ ''sys freeSwap:'' @ TAB @ ''0 MB'' @ NL
           @ ''sys totalHigh:'' @ TAB @ ''0 MB'' @ NL
           @ ''sys freeHigh:'' @ TAB @ ''0 MB'' @ NL
           @ ''sys procs:'' @ TAB @ ''200'' @ NL,
          queries = 2\<rparr>)"
proof -
  define e where "e = box\<lparr>cpu_Info := (\<lambda>_. Inl ''ENOENT'')\<rparr>"
  note T = os_flag_prints_sysinfo_then_cpu [OF flag_Parse_os]
  have f: "fmt_2_2f box = (\<lambda>_. ''0.00'')" "fmt_g box = (\<lambda>_. ''2500'')"
    "fmt_2_2f e = (\<lambda>_. ''0.00'')"
    by (simp_all add: e_def box_def)
  have h: "syscall_Sysinfo box (queries start) = Inr si0"
    "cpu_Info box (Suc (queries start)) = Inr [cpu0]"
    by (simp_all add: box_def)
  have h1: "syscall_Sysinfo broken (queries start) = Inl ''EFAULT''"
    by (simp add: broken_def)
  have h2: "syscall_Sysinfo e (queries start) = Inr si0"
    "cpu_Info e (Suc (queries start)) = Inl ''ENOENT''"
    by (simp_all add: e_def box_def)
  have "main box (''machineInfo'' # [''--os'']) start =
       (Inr (), \<lparr>stdout = ''2'' @ NL @ SysInfo_text box si0 @ CPUInfo_text box [cpu0],
                  queries = 2\<rparr>)"
    using T [of box start undefined si0 "[cpu0]" "''machineInfo''", THEN conjunct1] h
    by (simp add: start_def fmt_d_2 then_io_run)
  then have r0: "main box [''machineInfo'', ''--os''] start =
       (Inr (), \<lparr>stdout = ''2'' @ NL @ SysInfo_text box si0 @ CPU_record_text box cpu0,
                  queries = 2\<rparr>)"
    by (simp add: CPUInfo_text_def)
  have r1: "main broken [''machineInfo'', ''--os''] start =
       (Inl (Panic (Error ''EFAULT'')), \<lparr>stdout = ''2'' @ NL, queries = 1\<rparr>)"
    using T [of broken start undefined _ _ "''machineInfo''" "''EFAULT''",
        THEN conjunct2, THEN conjunct1] h1
    by (simp add: start_def fmt_d_2)
  have r2: "main e [''machineInfo'', ''--os''] start =
       (Inl (Panic (Error ''ENOENT'')),
        \<lparr>stdout = ''2'' @ NL @ SysInfo_text e si0, queries = 2\<rparr>)"
    using T [of e start undefined si0 _ "''machineInfo''" "''ENOENT''",
        THEN conjunct2, THEN conjunct2] h2
    by (simp add: start_def fmt_d_2)
  note r0' = r0 [unfolded SysInfo_text_si0 [OF f(1)] CPU_record_text_cpu0 [OF f(2)] append_assoc]
  note r2' = r2 [unfolded SysInfo_text_si0 [OF f(3)] append_assoc, unfolded e_def]
  note h2' = h2(2) [unfolded e_def]
  from flag_Parse_os h h1 h2' r0' r1 r2' show ?thesis
    by (intro conjI)
qed

text \<open>
  C7: when the CPU query succeeds, \<open>GetCPUInfo\<close> returns the reply as it is (same
  records, same length, same order), and \<open>PrintCPUInfo\<close> appends to standard output,
  for every record once and in that order, its thirteen labelled lines; equal records
  are printed as often as they occur.
\<close>

theorem cpu_records_unmodified_and_printed_once_in_order:
  assumes "cpu_Info env (queries w) = Inr cpu_info"
  shows "GetCPUInfo env w = (Inr cpu_info, asked w)
    \<and> PrintCPUInfo env w =
        (Inr (), (asked w)\<lparr>stdout := stdout w @ concat (map (\<lambda>c.
             ''cpuID:'' @ TAB @ fmt_d (sint (CPU c)) @ NL
             @ ''--vendorID:'' @ TAB @ VendorID c @ NL
             @ ''--family:'' @ TAB @ Family c @ NL
             @ ''--model:'' @ TAB @ Model c @ NL
             @ ''--stepping:'' @ TAB @ fmt_d (sint (Stepping c)) @ NL
             @ ''--physicalID:'' @ TAB @ PhysicalID c @ NL
             @ ''--coreID:'' @ TAB @ CoreID c @ NL
             @ ''--cores:'' @ TAB @ fmt_d (sint (Cores c)) @ NL
             @ ''--modelName:'' @ TAB @ ModelName c @ NL
             @ ''--MHz:'' @ TAB @ TAB @ fmt_g env (Mhz c) @ NL
             @ ''--facheSize:'' @ TAB @ fmt_d (sint (CacheSize c)) @ NL
             @ ''--flags:'' @ TAB @ fmt_v_strings (InfoStat.Flags c) @ NL
             @ ''--Microcode:'' @ TAB @ Microcode c @ NL) cpu_info)\<rparr>)"
proof -
  have "(\<lambda>c. concat (CPUInfo_lines env c)) = (\<lambda>c.
             ''cpuID:'' @ TAB @ fmt_d (sint (CPU c)) @ NL
             @ ''--vendorID:'' @ TAB @ VendorID c @ NL
             @ ''--family:'' @ TAB @ Family c @ NL
             @ ''--model:'' @ TAB @ Model c @ NL
             @ ''--stepping:'' @ TAB @ fmt_d (sint (Stepping c)) @ NL
             @ ''--physicalID:'' @ TAB @ PhysicalID c @ NL
             @ ''--coreID:'' @ TAB @ CoreID c @ NL
             @ ''--cores:'' @ TAB @ fmt_d (sint (Cores c)) @ NL
             @ ''--modelName:'' @ TAB @ ModelName c @ NL
             @ ''--MHz:'' @ TAB @ TAB @ fmt_g env (Mhz c) @ NL
             @ ''--facheSize:'' @ TAB @ fmt_d (sint (CacheSize c)) @ NL
             @ ''--flags:'' @ TAB @ fmt_v_strings (InfoStat.Flags c) @ NL
             @ ''--Microcode:'' @ TAB @ Microcode c @ NL)"
    by (simp add: fun_eq_iff CPUInfo_lines_def)
  then show ?thesis
    using assms
    by (simp add: GetCPUInfo_def PrintCPUInfo_def bind_io_def query_def asked_def
        PrintCPUInfo_loop_run CPUInfo_printed_def)
qed

theorem cpu_records_unmodified_and_printed_once_in_order_witness:
  "cpu_Info box3 (queries start) = Inr [cpu0, cpu1, cpu0]
   \<and> GetCPUInfo box3 start = (Inr [cpu0, cpu1, cpu0], \<lparr>stdout = [], queries = 1\<rparr>)
   \<and> PrintCPUInfo box3 start =
        (Inr (), \<lparr>stdout = CPU_record_text box3 cpu0 @ CPU_record_text box3 cpu1
            @ CPU_record_text box3 cpu0, queries = 1\<rparr>)
   \<and> CPU_record_text box3 cpu0 =
       ''cpuID:'' @ TAB @ ''0'' @ NL
       @ ''--vendorID:'' @ TAB @ ''GenuineIntel'' @ NL
       @ ''--family:'' @ TAB @ ''6'' @ NL
       @ ''--model:'' @ TAB @ ''85'' @ NL
       @ ''--stepping:'' @ TAB @ ''7'' @ NL
       @ ''--physicalID:'' @ TAB @ ''0'' @ NL
       @ ''--coreID:'' @ TAB @ ''0'' @ NL
       @ ''--cores:'' @ TAB @ ''1'' @ NL
       @ ''--modelName:'' @ TAB @ ''Xeon'' @ NL
       @ ''--MHz:'' @ TAB @ TAB @ ''2500'' @ NL
       @ ''--facheSize:'' @ TAB @ ''36608'' @ NL
       @ ''--flags:'' @ TAB @ ''[fpu vme]'' @ NL
       @ ''--Microcode:'' @ TAB @ ''0x1'' @ NL
   \<and> CPU_record_text box3 cpu1 =
       ''cpuID:'' @ TAB @ ''1'' @ NL
       @ ''--vendorID:'' @ TAB @ ''GenuineIntel'' @ NL
       @ ''--family:'' @ TAB @ ''6'' @ NL
       @ ''--model:'' @ TAB @ ''85'' @ NL
       @ ''--stepping:'' @ TAB @ ''7'' @ NL
       @ ''--physicalID:'' @ TAB @ ''0'' @ NL
       @ ''--coreID:'' @ TAB @ ''1'' @ NL
       @ ''--cores:'' @ TAB @ ''1'' @ NL
       @ ''--modelName:'' @ TAB @ ''Xeon'' @ NL
       @ ''--MHz:'' @ TAB @ TAB @ ''2500'' @ NL
       @ ''--facheSize:'' @ TAB @ ''36608'' @ NL
       @ ''--flags:'' @ TAB @ ''[fpu vme]'' @ NL
       @ ''--Microcode:'' @ TAB @ ''0x1'' @ NL"
proof -
  have h: "cpu_Info box3 (queries start) = Inr [cpu0, cpu1, cpu0]"
    by (simp add: box3_def)
  have g: "fmt_g box3 = (\<lambda>_. ''2500'')"
    by (simp add: box3_def box_def)
  from cpu_records_unmodified_and_printed_once_in_order [OF h]
  have "GetCPUInfo box3 start = (Inr [cpu0, cpu1, cpu0], \<lparr>stdout = [], queries = 1\<rparr>)"
    and "PrintCPUInfo box3 start =
        (Inr (), \<lparr>stdout = CPU_record_text box3 cpu0 @ CPU_record_text box3 cpu1
            @ CPU_record_text box3 cpu0, queries = 1\<rparr>)"
    by (simp_all add: CPU_record_text_def start_def asked_def)
  with h CPU_record_text_cpu0 [OF g] CPU_record_text_cpu1 [OF g] show ?thesis
    by blast
qed

text \<open>
  C8: when the system-info query succeeds, the eight memory fields and the process
  count of the returned record are non-negative integers, and the three load averages
  are non-negative.
\<close>

theorem GetSysInfo_fields_nonnegative:
  assumes "syscall_Sysinfo env (queries w) = Inr sys_ref"
  shows "\<exists>sys_obj. GetSysInfo env w = (Inr sys_obj, asked w)
    \<and> 0 \<le> uint (TotalRam sys_obj) \<and> 0 \<le> uint (FreeRam sys_obj)
    \<and> 0 \<le> uint (SharedRam sys_obj) \<and> 0 \<le> uint (BufferRam sys_obj)
    \<and> 0 \<le> uint (TotalSwap sys_obj) \<and> 0 \<le> uint (FreeSwap sys_obj)
    \<and> 0 \<le> uint (TotalHigh sys_obj) \<and> 0 \<le> uint (FreeHigh sys_obj)
    \<and> 0 \<le> uint (Procs sys_obj)
    \<and> (\<forall>i<3. 0 \<le> index3 (Loads sys_obj) i)"
proof -
  have run: "GetSysInfo env w = (Inr (GetSysInfo_assign sys_ref), asked w)"
    using assms by (simp add: GetSysInfo_run)
  have "\<forall>i<3. 0 \<le> index3 (Loads (GetSysInfo_assign sys_ref)) i"
    by (simp add: Loads_GetSysInfo_assign f64_div_LOADS_SCALE_exact float64_of_uint64_nonneg)
  with run show ?thesis by simp
qed

theorem GetSysInfo_fields_nonnegative_witness:
  "syscall_Sysinfo box (queries start) = Inr si0
   \<and> (\<exists>sys_obj. GetSysInfo box start = (Inr sys_obj, \<lparr>stdout = [], queries = 1\<rparr>)
        \<and> 0 \<le> uint (TotalRam sys_obj) \<and> 0 \<le> uint (Procs sys_obj)
        \<and> 0 \<le> index3 (Loads sys_obj) 0 \<and> 0 \<le> index3 (Loads sys_obj) 1
        \<and> 0 \<le> index3 (Loads sys_obj) 2)"
proof -
  have reply: "syscall_Sysinfo box (queries start) = Inr si0"
    by (simp add: box_def start_def)
  from GetSysInfo_fields_nonnegative [OF reply]
  obtain sys_obj where run: "GetSysInfo box start = (Inr sys_obj, asked start)"
    and loads: "\<forall>i<3. 0 \<le> index3 (Loads sys_obj) i"
    by blast
  have w: "asked start = \<lparr>stdout = [], queries = 1\<rparr>"
    by (simp add: asked_def start_def)
  have "0 \<le> index3 (Loads sys_obj) 0" "0 \<le> index3 (Loads sys_obj) 1"
    "0 \<le> index3 (Loads sys_obj) 2"
    using loads by simp_all
  with reply run show ?thesis unfolding w by simp
qed

text \<open>
  C9: when the system-info query succeeds, the line labelled \<open>sys freeRam\<close> (the fourth
  line of the section) shows the \<open>TotalRam\<close> field of the snapshot, the same value as
  the \<open>sys totalRam\<close> line before it, and no line of the section depends on the
  \<open>FreeRam\<close> field.
\<close>

theorem freeRam_line_shows_TotalRam:
  assumes "syscall_Sysinfo env (queries w) = Inr sys_ref"
  shows "\<exists>sys_obj. GetSysInfo env w = (Inr sys_obj, asked w)
     \<and> PrintSysInfo env w =
         (Inr (), (asked w)\<lparr>stdout := stdout w @ concat (SysInfo_lines env sys_obj)\<rparr>)
     \<and> SysInfo_lines env sys_obj ! 2
         = ''sys totalRam:'' @ TAB @ fmt_d (uint (TotalRam sys_obj)) @ '' MB'' @ NL
     \<and> SysInfo_lines env sys_obj ! 3
         = ''sys freeRam:'' @ TAB @ fmt_d (uint (TotalRam sys_obj)) @ '' MB'' @ NL
     \<and> (\<forall>x. SysInfo_lines env (sys_obj\<lparr>FreeRam := x\<rparr>) = SysInfo_lines env sys_obj)"
proof -
  have "GetSysInfo env w = (Inr (GetSysInfo_assign sys_ref), asked w)"
    using assms by (simp add: GetSysInfo_run)
  moreover have "PrintSysInfo env w =
      (Inr (), (asked w)\<lparr>stdout := stdout w @ concat (SysInfo_lines env (GetSysInfo_assign sys_ref))\<rparr>)"
    using assms by (simp add: PrintSysInfo_run SysInfo_printed_def)
  moreover have "SysInfo_lines env s ! 2
         = ''sys totalRam:'' @ TAB @ fmt_d (uint (TotalRam s)) @ '' MB'' @ NL" for s
    by (simp add: SysInfo_lines_def)
  moreover have "SysInfo_lines env s ! 3
         = ''sys freeRam:'' @ TAB @ fmt_d (uint (TotalRam s)) @ '' MB'' @ NL" for s
    by (simp add: SysInfo_lines_def)
  moreover have "\<forall>x. SysInfo_lines env (s\<lparr>FreeRam := x\<rparr>) = SysInfo_lines env s" for s
    by (simp add: SysInfo_lines_def)
  ultimately show ?thesis by blast
qed

theorem freeRam_line_shows_TotalRam_witness:
  "syscall_Sysinfo box (queries start) = Inr si0
   \<and> uint (Freeram si0 div of_nat SYSINFO_MEM_UNIT) = 1024
   \<and> (\<exists>sys_obj. GetSysInfo box start = (Inr sys_obj, asked start)
        \<and> SysInfo_lines box sys_obj ! 2 = ''sys totalRam:'' @ TAB @ ''8192 MB'' @ NL
        \<and> SysInfo_lines box sys_obj ! 3 = ''sys freeRam:'' @ TAB @ ''8192 MB'' @ NL)"
proof -
  have h: "syscall_Sysinfo box (queries start) = Inr si0"
    by (simp add: box_def)
  from freeRam_line_shows_TotalRam [OF h]
  obtain sys_obj where run: "GetSysInfo box start = (Inr sys_obj, asked start)"
    and l2: "SysInfo_lines box sys_obj ! 2
         = ''sys totalRam:'' @ TAB @ fmt_d (uint (TotalRam sys_obj)) @ '' MB'' @ NL"
    and l3: "SysInfo_lines box sys_obj ! 3
         = ''sys freeRam:'' @ TAB @ fmt_d (uint (TotalRam sys_obj)) @ '' MB'' @ NL"
    by blast
  from run h have "sys_obj = GetSysInfo_assign si0" by (simp add: GetSysInfo_run)
  then have t: "uint (TotalRam sys_obj) = 8192"
    by (simp add: mem_GetSysInfo_assign uint_div_MEM_UNIT si0_def)
  have f: "uint (Freeram si0 div of_nat SYSINFO_MEM_UNIT) = 1024"
    by (simp add: uint_div_MEM_UNIT si0_def)
  from l2 l3 have "SysInfo_lines box sys_obj ! 2 = ''sys totalRam:'' @ TAB @ ''8192 MB'' @ NL"
    "SysInfo_lines box sys_obj ! 3 = ''sys freeRam:'' @ TAB @ ''8192 MB'' @ NL"
    by (simp_all add: t fmt_d_8192)
  with h f run show ?thesis by blast
qed

text \<open>
  C10 as stated (the system-stats section stands between the two copies of the CPU
  section) fails: with \<open>--os --cpu\<close> the output is the system-stats section and then
  the CPU section twice, and it cannot be split with system-stats between two CPU
  sections.
\<close>

theorem cpu_twice_around_sysinfo_counterexample:
  "flag_Parse flags_default [''--os'', ''--cpu'']
     = Inr \<lparr>hn = False, OS = True, cpu = True, netw = False\<rparr>
   \<and> main box [''machineInfo'', ''--os'', ''--cpu''] start
       = (Inr (), \<lparr>stdout = ''3'' @ NL @ SysInfo_text box si0 @ CPUInfo_text box [cpu0]
                      @ CPUInfo_text box [cpu0], queries = 3\<rparr>)
   \<and> \<not> (\<exists>pre post. stdout (snd (main box [''machineInfo'', ''--os'', ''--cpu''] start))
         = pre @ CPUInfo_text box [cpu0] @ SysInfo_text box si0 @ CPUInfo_text box [cpu0] @ post)"
proof -
  have sys: "SysInfo_printed box s = SysInfo_text box s" for s
    by (cases "Sysinfo_t.Loads s")
       (simp add: SysInfo_printed_def SysInfo_lines_def SysInfo_text_def GetSysInfo_assign_def
          sys_t_zero_def Let_def f64_div_LOADS_SCALE_exact SYSINFO_MEM_UNIT_eq uint_div)
  have "(\<lambda>c. concat (CPUInfo_lines box c)) = CPU_record_text box"
    by (simp add: fun_eq_iff CPUInfo_lines_def CPU_record_text_def)
  then have cpu: "CPUInfo_printed box cs = CPUInfo_text box cs" for cs
    by (simp add: CPUInfo_printed_def CPUInfo_text_def)
  have h: "syscall_Sysinfo box (queries start) = Inr si0"
    "cpu_Info box (Suc (queries start)) = Inr [cpu0]"
    "cpu_Info box (Suc (Suc (queries start))) = Inr [cpu0]"
    by (simp_all add: box_def)
  have run: "main box [''machineInfo'', ''--os'', ''--cpu''] start
       = (Inr (), \<lparr>stdout = ''3'' @ NL @ SysInfo_text box si0 @ CPUInfo_text box [cpu0]
                      @ CPUInfo_text box [cpu0], queries = 3\<rparr>)"
  proof -
    have "main box (''machineInfo'' # [''--os'', ''--cpu'']) start =
      when_io (netw \<lparr>hn = False, OS = True, cpu = True, netw = False\<rparr>) (PrintNetworkInterface box)
       (start\<lparr>queries := Suc (Suc (Suc (if hn \<lparr>hn = False, OS = True, cpu = True, netw = False\<rparr>
                      then Suc (queries start) else queries start))),
           stdout := stdout start @ fmt_d (int (Suc (length [''--os'', ''--cpu'']))) @ NL
                    @ (if hn \<lparr>hn = False, OS = True, cpu = True, netw = False\<rparr>
                       then HostName_text undefined else [])
                    @ SysInfo_text box si0 @ CPUInfo_text box [cpu0]
                    @ CPUInfo_text box [cpu0]\<rparr>)"
      by (rule main_os_cpu_run [OF flag_Parse_os_cpu, where env = box, unfolded sys cpu]) (simp_all add: h)
    then show ?thesis by (simp add: start_def fmt_d_3)
  qed
  have C: "CPUInfo_text box [cpu0] \<noteq> []" "hd (CPUInfo_text box [cpu0]) = CHR ''c''"
    by (simp_all add: CPUInfo_text_def CPU_record_text_def)
  have Y: "SysInfo_text box si0 \<noteq> []" "hd (SysInfo_text box si0) = CHR ''s''"
    by (simp_all add: SysInfo_text_def)
  have "\<not> (\<exists>pre post. stdout (snd (main box [''machineInfo'', ''--os'', ''--cpu''] start))
         = pre @ CPUInfo_text box [cpu0] @ SysInfo_text box si0 @ CPUInfo_text box [cpu0] @ post)"
    unfolding run using cpu_not_around_sys [OF C Y] by simp
  with run flag_Parse_os_cpu show ?thesis by blast
qed

text \<open>
  C10, amended: when \<open>-os\<close> and \<open>-cpu\<close> are both set and the queries succeed, the CPU
  section is printed twice, each copy from a query of its own, the two copies next to
  each other and directly after the system-stats section; only the network report, if
  asked for, follows.
\<close>

theorem os_and_cpu_flags_print_cpu_twice_after_sysinfo:
  assumes "flag_Parse flags_default args = Inr fl" and "OS fl" and "cpu fl"
    and "hn fl \<longrightarrow> os_Hostname env (queries w) = Inr h"
    and "syscall_Sysinfo env (if hn fl then Suc (queries w) else queries w) = Inr sys_ref"
    and "cpu_Info env (Suc (if hn fl then Suc (queries w) else queries w)) = Inr cpu_info"
    and "cpu_Info env (Suc (Suc (if hn fl then Suc (queries w) else queries w))) = Inr cpu_info'"
  shows "main env (prog # args) w =
     when_io (netw fl) (PrintNetworkInterface env)
       (w\<lparr>queries := Suc (Suc (Suc (if hn fl then Suc (queries w) else queries w))),
           stdout := stdout w @ fmt_d (int (Suc (length args))) @ NL
                    @ (if hn fl then HostName_text h else [])
                    @ SysInfo_text env sys_ref @ CPUInfo_text env cpu_info
                    @ CPUInfo_text env cpu_info'\<rparr>)
    \<and> (\<exists>post. stdout (snd (main env (prog # args) w)) =
          stdout w @ fmt_d (int (Suc (length args))) @ NL
            @ (if hn fl then HostName_text h else [])
            @ SysInfo_text env sys_ref @ CPUInfo_text env cpu_info
            @ CPUInfo_text env cpu_info' @ post)"
proof -
  have sys: "SysInfo_printed env s = SysInfo_text env s" for s
    by (cases "Sysinfo_t.Loads s")
       (simp add: SysInfo_printed_def SysInfo_lines_def SysInfo_text_def GetSysInfo_assign_def
          sys_t_zero_def Let_def f64_div_LOADS_SCALE_exact SYSINFO_MEM_UNIT_eq uint_div)
  have "(\<lambda>c. concat (CPUInfo_lines env c)) = CPU_record_text env"
    by (simp add: fun_eq_iff CPUInfo_lines_def CPU_record_text_def)
  then have cpu: "CPUInfo_printed env cs = CPUInfo_text env cs" for cs
    by (simp add: CPUInfo_printed_def CPUInfo_text_def)
  define w' where "w' = w\<lparr>queries := Suc (Suc (Suc (if hn fl then Suc (queries w) else queries w))),
           stdout := stdout w @ fmt_d (int (Suc (length args))) @ NL
                    @ (if hn fl then HostName_text h else [])
                    @ SysInfo_text env sys_ref @ CPUInfo_text env cpu_info
                    @ CPUInfo_text env cpu_info'\<rparr>"
  have run: "main env (prog # args) w = when_io (netw fl) (PrintNetworkInterface env) w'"
    unfolding w'_def using assms by (rule main_os_cpu_run [where env = env, unfolded sys cpu])
  from network_appends [of "netw fl" env w']
  obtain t where "stdout (snd (main env (prog # args) w)) = stdout w' @ t"
    unfolding run by blast
  then have "\<exists>post. stdout (snd (main env (prog # args) w)) =
          stdout w @ fmt_d (int (Suc (length args))) @ NL
            @ (if hn fl then HostName_text h else [])
            @ SysInfo_text env sys_ref @ CPUInfo_text env cpu_info
            @ CPUInfo_text env cpu_info' @ post"
    by (simp add: w'_def)
  with run show ?thesis unfolding w'_def by blast
qed

theorem os_and_cpu_flags_print_cpu_twice_after_sysinfo_witness:
  "flag_Parse flags_default [''--os'', ''--cpu'']
     = Inr \<lparr>hn = False, OS = True, cpu = True, netw = False\<rparr>
   \<and> syscall_Sysinfo box (queries start) = Inr si0
   \<and> cpu_Info box (Suc (queries start)) = Inr [cpu0]
   \<and> cpu_Info box (Suc (Suc (queries start))) = Inr [cpu0]
   \<and> main box [''machineInfo'', ''--os'', ''--cpu''] start
       = (Inr (), \<lparr>stdout = ''3'' @ NL @ SysInfo_text box si0 @ CPUInfo_text box [cpu0]
                      @ CPUInfo_text box [cpu0], queries = 3\<rparr>)"
proof -
  have h: "syscall_Sysinfo box (queries start) = Inr si0"
    "cpu_Info box (Suc (queries start)) = Inr [cpu0]"
    "cpu_Info box (Suc (Suc (queries start))) = Inr [cpu0]"
    by (simp_all add: box_def)
  from os_and_cpu_flags_print_cpu_twice_after_sysinfo [OF flag_Parse_os_cpu, of box start
      undefined si0 "[cpu0]" "[cpu0]" "''machineInfo''"] h
  have "main box [''machineInfo'', ''--os'', ''--cpu''] start
       = (Inr (), \<lparr>stdout = ''3'' @ NL @ SysInfo_text box si0 @ CPUInfo_text box [cpu0]
                      @ CPUInfo_text box [cpu0], queries = 3\<rparr>)"
    by (simp add: start_def fmt_d_3)
  with h flag_Parse_os_cpu show ?thesis by blast
qed

end
